theory Spec2Isabelle
  imports Complex_Main "HOL-Library.Word"
begin

section \<open>Numbers\<close>

text \<open>
  Go's \<open>int\<close> is modelled as \<open>int\<close>: every integer of the program is an image
  coordinate, a box side or a half of one. A \<open>float32\<close> or \<open>float64\<close> value is
  modelled as the \<open>real\<close> it denotes. Where the program converts a \<open>float64\<close> to an
  \<open>int\<close> (the size and the origin of the mask, main.go lines 244-255 and 601-618),
  the rounding of the operations before the conversion decides the integer, so
  these operations round as Go's do, with \<open>f64\<close> below. The angle and the
  coordinates handed to the drawing calls are never converted to an integer; they
  stay the exact value of their expression. Infinities and NaN are not modelled
  (a number of \<open>2\<^sup>1\<^sup>0\<^sup>2\<^sup>4\<close> or more is rounded as in the last binade): what is proved
  of a size assumes a mask with positive bounds.
\<close>

text \<open>Go's integer \<open>/\<close>: the quotient is truncated towards zero.\<close>

definition idiv :: "int \<Rightarrow> int \<Rightarrow> int" where
  "idiv a b = (if (a < 0) = (b < 0) then \<bar>a\<bar> div \<bar>b\<bar> else - (\<bar>a\<bar> div \<bar>b\<bar>))"

text \<open>Go's conversion \<open>int(x)\<close> of a float: the fraction is discarded.\<close>

definition to_int :: "real \<Rightarrow> int" where
  "to_int x = (if 0 \<le> x then \<lfloor>x\<rfloor> else \<lceil>x\<rceil>)"

text \<open>
  IEEE 754 binary64 with rounding to nearest, ties to even: \<open>f64 x\<close> is the
  \<open>float64\<close> nearest to \<open>x\<close>. \<open>pow2 e\<close> is \<open>2\<^sup>e\<close>. \<open>f64_exp x\<close> is the exponent of
  the binade of \<open>x\<close>: the largest \<open>e\<close> from -1022 to 1023 with \<open>2\<^sup>e \<le> |x|\<close>, and -1022
  for a subnormal \<open>x\<close>. The \<open>float64\<close> numbers of that binade are the multiples of
  \<open>2\<^bsup>e - 52\<^esup>\<close>; \<open>rne\<close> picks the nearest multiple, and the even one of two that are
  equally near.
\<close>

definition pow2 :: "int \<Rightarrow> real" where
  "pow2 e = (if 0 \<le> e then 2 ^ nat e else 1 / 2 ^ nat (- e))"

definition rne :: "real \<Rightarrow> int" where
  "rne y =
     (let f = \<lfloor>y\<rfloor>;
          r = y - real_of_int f
      in if r < 1 / 2 then f
         else if 1 / 2 < r then f + 1
         else if even f then f
         else f + 1)"

definition f64_exp :: "real \<Rightarrow> int" where
  "f64_exp x =
     (if pow2 (- 1022) \<le> \<bar>x\<bar> then Max {e \<in> {- 1022 .. 1023}. pow2 e \<le> \<bar>x\<bar>} else - 1022)"

definition f64 :: "real \<Rightarrow> real" where
  "f64 x = real_of_int (rne (x / pow2 (f64_exp x - 52))) * pow2 (f64_exp x - 52)"

text \<open>
  Go's conversion \<open>float64(n)\<close> of an integer, and its \<open>*\<close> and \<open>/\<close> on \<open>float64\<close>:
  the exact result, rounded.
\<close>

definition float64 :: "int \<Rightarrow> real" where
  "float64 n = f64 (real_of_int n)"

definition fmul :: "real \<Rightarrow> real \<Rightarrow> real" where
  "fmul a b = f64 (a * b)"

definition fdiv :: "real \<Rightarrow> real \<Rightarrow> real" where
  "fdiv a b = f64 (a / b)"

section \<open>Command line checks of \<open>main\<close>\<close>

text \<open>
  \<open>filepath.Ext\<close>: the suffix of the path that starts at the last dot of its last
  element, empty when that element has no dot. \<open>ext_scan\<close> walks the reversed path
  as the library's loop walks the path from its end, collecting what it has passed.
\<close>

fun ext_scan :: "string \<Rightarrow> string \<Rightarrow> string" where
  "ext_scan [] acc = []"
| "ext_scan (c # cs) acc =
     (if c = CHR ''/'' then []
      else if c = CHR ''.'' then c # acc
      else ext_scan cs (c # acc))"

definition Ext :: "string \<Rightarrow> string" where
  "Ext path = ext_scan (rev path) []"

text \<open>\<open>inSlice\<close> (main.go, lines 311-319).\<close>

fun inSlice :: "string \<Rightarrow> string list \<Rightarrow> bool" where
  "inSlice item [] = False"
| "inSlice item (it # rest) = (if it = item then True else inSlice item rest)"

text \<open>The settings record of the source (main.go, lines 44-55).\<close>

record faceDetector =
  angle :: real
  destination :: string
  minSize :: int
  maxSize :: int
  shiftFactor :: real
  scaleFactor :: real
  iouThreshold :: real
  faceCascade :: string
  eyesCascade :: string
  flplocDir :: string

text \<open>The three \<open>log.Fatal\<close> exits of \<open>main\<close> before the detector is built.\<close>

datatype fatal =
    FatalUsage
  | FatalFileType string
  | FatalScaleFactor

definition fileTypes :: "string list" where
  "fileTypes = [''.jpg'', ''.jpeg'', ''.png'']"

text \<open>
  \<open>main\<close> from the parsed flags to the construction of \<open>fd\<close> (main.go, lines 76-107).
  The arguments are the flag values, in the order of their declaration. A fatal exit
  is \<open>Inl\<close>; otherwise the detector settings that \<open>detectFaces\<close> and \<open>drawFaces\<close>
  then run with.
\<close>

definition main_init ::
  "string \<Rightarrow> string \<Rightarrow> int \<Rightarrow> int \<Rightarrow> real \<Rightarrow> real \<Rightarrow> real \<Rightarrow> real \<Rightarrow> fatal + faceDetector" where
  "main_init source dest minS maxS shiftF scaleF ang iou =
     (if length source = 0 \<or> length dest = 0 then Inl FatalUsage
      else if \<not> inSlice (Ext dest) fileTypes then Inl (FatalFileType (Ext dest))
      else if scaleF < 1.05 then Inl FatalScaleFactor
      else Inr \<lparr> angle = ang, destination = dest, minSize = minS, maxSize = maxS,
                 shiftFactor = shiftF, scaleFactor = scaleF, iouThreshold = iou,
                 faceCascade = ''cascades/facefinder'', eyesCascade = ''cascades/puploc'',
                 flplocDir = ''cascades/lps'' \<rparr>)"

section \<open>Data of the detector library and of the drawing library\<close>

text \<open>\<open>pigo.Detection\<close>: the centre of a square face box, its side and its score.\<close>

record Detection =
  Row :: int
  Col :: int
  Scale :: int
  Q :: real

text \<open>
  \<open>pigo.Puploc\<close>: a search window handed to the pupil locator, and also the point
  that the pupil locator and the landmark locator return.
\<close>

record Puploc =
  Row :: int
  Col :: int
  Scale :: real
  Perturbs :: int

text \<open>
  The \<open>point\<close> struct of the second source text (main.go, lines 375-377); its fields
  \<open>x\<close> and \<open>y\<close> are written \<open>px\<close> and \<open>py\<close> here.
\<close>

record point =
  px :: int
  py :: int

datatype color =
    RGBA "8 word" "8 word" "8 word" "8 word"
  | Transparent

datatype pattern = NewSolidPattern color

text \<open>A decoded image and its bounds (\<open>Bounds().Dx()\<close>, \<open>Bounds().Dy()\<close>).\<close>

record decoded =
  Dx :: int
  Dy :: int
  Pix :: "8 word list"

datatype ResampleFilter = Lanczos

text \<open>
  The calls of the imaging library are kept as they are made: \<open>Resize img w h f\<close>
  is \<open>imaging.Resize(img, w, h, f)\<close> and \<open>Rotate img a c\<close> is
  \<open>imaging.Rotate(img, a, c)\<close>.
\<close>

datatype image =
    Image decoded
  | Resize image int int ResampleFilter
  | Rotate image real color

text \<open>
  The drawing context \<open>dc\<close> is the sequence of the calls made on it, oldest first;
  \<open>dc.Image()\<close> is the raster these calls have painted.
\<close>

datatype gg_op =
    DrawRectangle real real real real
  | SetLineWidth real
  | SetStrokeStyle pattern
  | Stroke
  | DrawArc real real real real real
  | SetFillStyle pattern
  | Fill
  | DrawImage image int int

text \<open>A value printed by \<open>fmt.Println\<close>.\<close>

datatype pval = PInt int | PFloat real

section \<open>Files\<close>

text \<open>
  The file system maps a path to the bytes of the file. \<open>OpenFile\<close> and \<open>Write\<close>
  follow open(2) and write(2), which \<open>os.OpenFile\<close> and \<open>(*File).Write\<close> call: a
  missing file is created only under \<open>O_CREATE\<close>, an existing one loses its content
  only under \<open>O_TRUNC\<close>, and a write replaces the bytes from the handle's offset on
  (from the end of the file under \<open>O_APPEND\<close>).
\<close>

datatype oflag =
    O_RDONLY | O_WRONLY | O_RDWR | O_APPEND | O_CREATE | O_EXCL | O_SYNC | O_TRUNC

record File =
  Name :: string
  Flags :: "oflag set"
  Pos :: nat

type_synonym filesys = "string \<rightharpoonup> 8 word list"

datatype error =
    PathError string
  | DecodeError
  | IndexOutOfRange
  | EncodeError

definition OpenFile :: "filesys \<Rightarrow> string \<Rightarrow> oflag set \<Rightarrow> error + (filesys \<times> File)" where
  "OpenFile files name flags =
     (case files name of
        None \<Rightarrow>
          if O_CREATE \<in> flags
          then Inr (files(name \<mapsto> []), \<lparr> Name = name, Flags = flags, Pos = 0 \<rparr>)
          else Inl (PathError name)
      | Some content \<Rightarrow>
          if O_CREATE \<in> flags \<and> O_EXCL \<in> flags then Inl (PathError name)
          else Inr (if O_TRUNC \<in> flags then files(name \<mapsto> []) else files,
                    \<lparr> Name = name, Flags = flags, Pos = 0 \<rparr>))"

definition Write :: "filesys \<Rightarrow> File \<Rightarrow> 8 word list \<Rightarrow> filesys \<times> File" where
  "Write files f bytes =
     (let content = (case files (Name f) of None \<Rightarrow> [] | Some c \<Rightarrow> c);
          off = (if O_APPEND \<in> Flags f then length content else Pos f);
          padded = content @ replicate (off - length content) 0
      in (files(Name f \<mapsto> take off padded @ bytes @ drop (off + length bytes) padded),
          f\<lparr> Pos := off + length bytes \<rparr>))"

text \<open>What a reader gets that reads the handle to its end.\<close>

definition ReadAll :: "filesys \<Rightarrow> File \<Rightarrow> 8 word list" where
  "ReadAll files f = (case files (Name f) of None \<Rightarrow> [] | Some content \<Rightarrow> drop (Pos f) content)"

section \<open>The collaborators and the state of a run\<close>

text \<open>
  What the program calls and does not define. \<open>RunDetector w pl a flip\<close> is
  \<open>plc.RunDetector(pl, *imgParams, a, flip)\<close>, and an element \<open>c\<close> of \<open>flpcs w name\<close>
  is used as \<open>c leftEye rightEye perturb flip\<close> for
  \<open>c.FindLandmarkPoints(leftEye, rightEye, *imgParams, perturb, flip)\<close>: the image
  parameters are set once by \<open>detectFaces\<close> and are fixed during \<open>drawFaces\<close>.
  \<open>Atan2\<close> is \<open>math.Atan2\<close>; the decoder and the encoders return \<open>None\<close> for an
  error; the encoders get the calls that painted \<open>dc.Image()\<close>.
\<close>

record world =
  RunDetector :: "Puploc \<Rightarrow> real \<Rightarrow> bool \<Rightarrow> Puploc"
  flpcs :: "string \<rightharpoonup> (Puploc \<Rightarrow> Puploc \<Rightarrow> int \<Rightarrow> bool \<Rightarrow> Puploc) list"
  Atan2 :: "real \<Rightarrow> real \<Rightarrow> real"
  png_Decode :: "8 word list \<Rightarrow> decoded option"
  jpeg_Encode :: "gg_op list \<Rightarrow> nat \<Rightarrow> 8 word list option"
  png_Encode :: "gg_op list \<Rightarrow> 8 word list option"

text \<open>
  The state that \<open>drawFaces\<close> reads and changes: the global context \<open>dc\<close>, its local
  \<open>imgScale\<close> (declared before the loop, line 193, so it lives across the faces), the
  files, the paths given to \<open>os.OpenFile\<close> so far, the names of the files given to
  \<open>png.Decode\<close> so far and the lines printed so far.
\<close>

record state =
  dc :: "gg_op list"
  imgScale :: real
  files :: filesys
  opened :: "string list"
  decodes :: "string list"
  stdout :: "pval list list"

text \<open>
  A step ends in the next state, or it ends the run: \<open>Inl\<close> holds the error and the
  state reached when it was raised.
\<close>

type_synonym outcome = "(error \<times> state) + state"

definition reached :: "outcome \<Rightarrow> state" where
  "reached r = (case r of Inl (e, st) \<Rightarrow> st | Inr st \<Rightarrow> st)"

section \<open>\<open>drawFaces\<close>: the mask generator (main.go, lines 188-281)\<close>

definition qThresh :: real where
  "qThresh = 5.0"

definition perturb :: int where
  "perturb = 63"

text \<open>Lines 198-206: the outline of the face box.\<close>

definition faceBox :: "Detection \<Rightarrow> gg_op list" where
  "faceBox face =
     [DrawRectangle
        (real_of_int (Detection.Col face - idiv (Detection.Scale face) 2))
        (real_of_int (Detection.Row face - idiv (Detection.Scale face) 2))
        (real_of_int (Detection.Scale face))
        (real_of_int (Detection.Scale face)),
      SetLineWidth 2.0,
      SetStrokeStyle (NewSolidPattern (RGBA 255 0 0 255)),
      Stroke]"

text \<open>Lines 209-214 and 218-223: the two search windows.\<close>

definition leftEyeWindow :: "Detection \<Rightarrow> Puploc" where
  "leftEyeWindow face =
     \<lparr> Row = Detection.Row face - to_int (0.075 * real_of_int (Detection.Scale face)),
       Col = Detection.Col face - to_int (0.175 * real_of_int (Detection.Scale face)),
       Scale = real_of_int (Detection.Scale face) * 0.25,
       Perturbs = perturb \<rparr>"

definition rightEyeWindow :: "Detection \<Rightarrow> Puploc" where
  "rightEyeWindow face =
     \<lparr> Row = Detection.Row face - to_int (0.075 * real_of_int (Detection.Scale face)),
       Col = Detection.Col face + to_int (0.185 * real_of_int (Detection.Scale face)),
       Scale = real_of_int (Detection.Scale face) * 0.25,
       Perturbs = perturb \<rparr>"

text \<open>Lines 215 and 224: the pupil locator runs on each window.\<close>

definition leftEyeOf :: "world \<Rightarrow> faceDetector \<Rightarrow> Detection \<Rightarrow> Puploc" where
  "leftEyeOf w fdr face = RunDetector w (leftEyeWindow face) (angle fdr) False"

definition rightEyeOf :: "world \<Rightarrow> faceDetector \<Rightarrow> Detection \<Rightarrow> Puploc" where
  "rightEyeOf w fdr face = RunDetector w (rightEyeWindow face) (angle fdr) False"

text \<open>
  \<open>flpcs["lp84"][0]\<close>: a missing key gives the nil slice, and indexing an empty slice
  panics.
\<close>

definition lp84 :: "world \<Rightarrow> (Puploc \<Rightarrow> Puploc \<Rightarrow> int \<Rightarrow> bool \<Rightarrow> Puploc) option" where
  "lp84 w =
     (case flpcs w ''lp84'' of
        None \<Rightarrow> None
      | Some [] \<Rightarrow> None
      | Some (c # cs) \<Rightarrow> Some c)"

text \<open>
  Lines 229-238: the mask asset is opened and decoded. A failed open returns the
  error; a failed decode ends the process (\<open>log.Fatal\<close>). The deferred \<open>Close\<close> runs
  when \<open>drawFaces\<close> returns and changes nothing that is modelled.
\<close>

definition maskPath :: string where
  "maskPath = ''assets/facemask.png''"

definition readMask :: "world \<Rightarrow> state \<Rightarrow> (error \<times> state) + (decoded \<times> state)" where
  "readMask w st =
     (let st1 = st\<lparr> opened := opened st @ [maskPath] \<rparr>
      in case OpenFile (files st) maskPath {O_RDONLY} of
           Inl err \<Rightarrow> Inl (err, st1)
         | Inr (files', maskFile) \<Rightarrow>
             (let st2 = st1\<lparr> files := files', decodes := decodes st1 @ [Name maskFile] \<rparr>
              in case png_Decode w (ReadAll files' maskFile) of
                   None \<Rightarrow> Inl (DecodeError, st2)
                 | Some maskImg \<Rightarrow> Inr (maskImg, st2)))"

text \<open>The angle, the scale, the size and the origin of an overlay.\<close>

record transform =
  t_angle :: real
  t_imgScale :: real
  width :: real
  height :: real
  tx :: int
  ty :: int

text \<open>
  Lines 241-253. The first argument after the world is \<open>imgScale\<close> as the previous
  faces left it. \<open>float64(dx)*imgScale*0.75\<close> is two multiplications, from the left;
  0.75 and 2 are \<open>float64\<close> numbers.
\<close>

definition align :: "world \<Rightarrow> real \<Rightarrow> Detection \<Rightarrow> Puploc \<Rightarrow> Puploc \<Rightarrow> decoded \<Rightarrow> transform" where
  "align w imgScale0 face flp1 flp2 maskImg =
     (let ang = 1 - (Atan2 w (real_of_int (Puploc.Col flp2 - Puploc.Col flp1))
                             (real_of_int (Puploc.Row flp2 - Puploc.Row flp1)) * 180 / pi / 90);
          dx = Dx maskImg;
          dy = Dy maskImg;
          imgScale1 =
            (if Detection.Scale face < dx \<or> Detection.Scale face < dy
             then (if dx > dy
                   then fdiv (float64 (Detection.Scale face)) (float64 dx)
                   else fdiv (float64 (Detection.Scale face)) (float64 dy))
             else imgScale0);
          wd = fmul (fmul (float64 dx) imgScale1) 0.75;
          ht = fmul (fmul (float64 dy) imgScale1) 0.75
      in \<lparr> t_angle = ang, t_imgScale = imgScale1, width = wd, height = ht,
           tx = Detection.Col face - to_int (fdiv wd 2),
           ty = Puploc.Row flp1 + idiv (Puploc.Row flp1 - Puploc.Row flp2) 2
                  - to_int (fdiv ht 2) \<rparr>)"

text \<open>Lines 255-257: resize, rotate, draw.\<close>

definition composite :: "decoded \<Rightarrow> transform \<Rightarrow> gg_op list" where
  "composite maskImg t =
     (let resized = Resize (Image maskImg) (to_int (width t)) (to_int (height t)) Lanczos;
          aligned = Rotate resized (t_angle t) Transparent
      in [DrawImage aligned (tx t) (ty t)])"

text \<open>Lines 197-258: the body of the loop, for one face.\<close>

definition overlay :: "world \<Rightarrow> faceDetector \<Rightarrow> state \<Rightarrow> Detection \<Rightarrow> outcome" where
  "overlay w fdr st face =
     (if Q face > qThresh then
        let st1 = st\<lparr> dc := dc st @ faceBox face \<rparr>;
            leftEye = leftEyeOf w fdr face;
            rightEye = rightEyeOf w fdr face
        in case lp84 w of
             None \<Rightarrow> Inl (IndexOutOfRange, st1)
           | Some flp \<Rightarrow>
               let flp1 = flp leftEye rightEye perturb False;
                   flp2 = flp leftEye rightEye perturb True
               in case readMask w st1 of
                    Inl e \<Rightarrow> Inl e
                  | Inr (maskImg, st2) \<Rightarrow>
                      let t = align w (imgScale st2) face flp1 flp2 maskImg
                      in Inr (st2\<lparr> dc := dc st2 @ composite maskImg t,
                                   imgScale := t_imgScale t \<rparr>)
      else Inr st)"

text \<open>The loop over the faces: an error ends it.\<close>

fun forFaces :: "(state \<Rightarrow> Detection \<Rightarrow> outcome) \<Rightarrow> state \<Rightarrow> Detection list \<Rightarrow> outcome" where
  "forFaces body st [] = Inr st"
| "forFaces body st (face # faces) =
     (case body st face of
        Inl e \<Rightarrow> Inl e
      | Inr st' \<Rightarrow> forFaces body st' faces)"

text \<open>
  Lines 261-280: the canvas is encoded into the destination. The encoder writes its
  bytes through the handle, one after the other, from the handle's offset.
\<close>

definition writeOutput :: "world \<Rightarrow> faceDetector \<Rightarrow> state \<Rightarrow> outcome" where
  "writeOutput w fdr st =
     (let img = dc st;
          st1 = st\<lparr> opened := opened st @ [destination fdr] \<rparr>
      in case OpenFile (files st) (destination fdr) {O_CREATE, O_RDWR} of
           Inl err \<Rightarrow> Inl (err, st1)
         | Inr (files', output) \<Rightarrow>
             let st2 = st1\<lparr> files := files' \<rparr>;
                 ext = Ext (Name output)
             in if ext = ''.jpg'' \<or> ext = ''.jpeg'' then
                  (case jpeg_Encode w img 100 of
                     None \<Rightarrow> Inl (EncodeError, st2)
                   | Some bytes \<Rightarrow> Inr (st2\<lparr> files := fst (Write files' output bytes) \<rparr>))
                else if ext = ''.png'' then
                  (case png_Encode w img of
                     None \<Rightarrow> Inl (EncodeError, st2)
                   | Some bytes \<Rightarrow> Inr (st2\<lparr> files := fst (Write files' output bytes) \<rparr>))
                else Inr st2)"

definition drawFaces :: "world \<Rightarrow> faceDetector \<Rightarrow> state \<Rightarrow> Detection list \<Rightarrow> outcome" where
  "drawFaces w fdr st faces =
     (case forFaces (overlay w fdr) (st\<lparr> imgScale := 0 \<rparr>) faces of
        Inl e \<Rightarrow> Inl e
      | Inr st' \<Rightarrow> writeOutput w fdr st')"

section \<open>\<open>drawFaces\<close>: the second source text (main.go, lines 524-646)\<close>

text \<open>
  The second text of main.go draws a marker at each landmark point and prints the
  numbers it computes; the definitions for it end in \<open>_diag\<close>.
\<close>

text \<open>\<open>drawDetections\<close> (lines 687-698, the same as lines 322-333).\<close>

definition drawDetections :: "real \<Rightarrow> real \<Rightarrow> real \<Rightarrow> color \<Rightarrow> bool \<Rightarrow> gg_op list" where
  "drawDetections xc yc r c markDet =
     [DrawArc xc yc (r * 0.15) 0 (2 * pi), SetFillStyle (NewSolidPattern c), Fill] @
     (if markDet
      then [DrawRectangle (xc - (r * 1.5)) (yc - (r * 1.5)) (r * 3) (r * 3),
            SetLineWidth 2.0,
            SetStrokeStyle (NewSolidPattern (RGBA 255 255 0 255)),
            Stroke]
      else [])"

text \<open>Lines 565-573 and 577-585: the marker of a landmark point.\<close>

definition marker :: "Puploc \<Rightarrow> gg_op list" where
  "marker flp =
     (if Puploc.Row flp > 0 \<and> Puploc.Col flp > 0
      then drawDetections (real_of_int (Puploc.Col flp)) (real_of_int (Puploc.Row flp))
             (Puploc.Scale flp * 0.5) (RGBA 0 0 255 255) False
      else [])"

text \<open>Lines 574 and 586: \<open>point{x: flp.Row, y: flp.Col}\<close>.\<close>

definition toPoint :: "Puploc \<Rightarrow> point" where
  "toPoint flp = \<lparr> px = Puploc.Row flp, py = Puploc.Col flp \<rparr>"

text \<open>
  Lines 600-615, without the printing. The constant 0.8 of \<open>width/2*0.8\<close> is the
  \<open>float64\<close> nearest to 0.8.
\<close>

definition align_diag :: "world \<Rightarrow> real \<Rightarrow> Detection \<Rightarrow> point \<Rightarrow> point \<Rightarrow> decoded \<Rightarrow> transform" where
  "align_diag w imgScale0 face p1 p2 maskImg =
     (let ang = 1 - (Atan2 w (real_of_int (py p2 - py p1))
                             (real_of_int (px p2 - px p1)) * 180 / pi / 90);
          dx = Dx maskImg;
          dy = Dy maskImg;
          imgScale1 =
            (if Detection.Scale face < dx \<or> Detection.Scale face < dy
             then (if dx > dy
                   then fdiv (float64 (Detection.Scale face)) (float64 dx)
                   else fdiv (float64 (Detection.Scale face)) (float64 dy))
             else imgScale0);
          wd = fmul (fmul (float64 dx) imgScale1) 0.75;
          ht = fmul (fmul (float64 dy) imgScale1) 0.75
      in \<lparr> t_angle = ang, t_imgScale = imgScale1, width = wd, height = ht,
           tx = Detection.Row face - to_int (fmul (fdiv wd 2) (f64 0.8)),
           ty = px p1 + idiv (px p1 - px p2) 2 - to_int (fdiv ht 2) \<rparr>)"

text \<open>The lines printed at 603, 604, 612, 620 and 621.\<close>

definition printed :: "Detection \<Rightarrow> decoded \<Rightarrow> transform \<Rightarrow> pval list list" where
  "printed face maskImg t =
     [[PInt (Detection.Scale face)],
      [PInt (Dx maskImg), PInt (Dy maskImg)],
      [PFloat (t_imgScale t)],
      [PInt (tx t), PInt (ty t)],
      [PFloat (width t), PFloat (height t)]]"

text \<open>Lines 534-623: the body of the loop, for one face.\<close>

definition overlay_diag :: "world \<Rightarrow> faceDetector \<Rightarrow> state \<Rightarrow> Detection \<Rightarrow> outcome" where
  "overlay_diag w fdr st face =
     (if Q face > qThresh then
        let st1 = st\<lparr> dc := dc st @ faceBox face \<rparr>;
            leftEye = leftEyeOf w fdr face;
            rightEye = rightEyeOf w fdr face
        in case lp84 w of
             None \<Rightarrow> Inl (IndexOutOfRange, st1)
           | Some c \<Rightarrow>
               let flp = c leftEye rightEye perturb False;
                   st2 = st1\<lparr> dc := dc st1 @ marker flp \<rparr>;
                   p1 = toPoint flp;
                   flp' = c leftEye rightEye perturb True;
                   st3 = st2\<lparr> dc := dc st2 @ marker flp' \<rparr>;
                   p2 = toPoint flp'
               in case readMask w st3 of
                    Inl e \<Rightarrow> Inl e
                  | Inr (maskImg, st4) \<Rightarrow>
                      let t = align_diag w (imgScale st4) face p1 p2 maskImg
                      in Inr (st4\<lparr> dc := dc st4 @ composite maskImg t,
                                   imgScale := t_imgScale t,
                                   stdout := stdout st4 @ printed face maskImg t \<rparr>)
      else Inr st)"

definition drawFaces_diag :: "world \<Rightarrow> faceDetector \<Rightarrow> state \<Rightarrow> Detection list \<Rightarrow> outcome" where
  "drawFaces_diag w fdr st faces =
     (case forFaces (overlay_diag w fdr) (st\<lparr> imgScale := 0 \<rparr>) faces of
        Inl e \<Rightarrow> Inl e
      | Inr st' \<Rightarrow> writeOutput w fdr st')"

section \<open>What the properties speak about\<close>

text \<open>The angle of the specification, section 4.3, from the two landmark points.\<close>

definition spec_angle :: "world \<Rightarrow> Puploc \<Rightarrow> Puploc \<Rightarrow> real" where
  "spec_angle w p1 p2 =
     1 - (Atan2 w (real_of_int (Puploc.Col p2 - Puploc.Col p1))
                  (real_of_int (Puploc.Row p2 - Puploc.Row p1)) * 180 / pi / 90)"

text \<open>
  The landmark point of a face for an orientation flag, as lines 226-227 (and 564,
  576) get it from the cascade \<open>c\<close>.
\<close>

definition landmark ::
  "world \<Rightarrow> faceDetector \<Rightarrow> (Puploc \<Rightarrow> Puploc \<Rightarrow> int \<Rightarrow> bool \<Rightarrow> Puploc) \<Rightarrow> Detection \<Rightarrow> bool \<Rightarrow> Puploc" where
  "landmark w fdr c face flip = c (leftEyeOf w fdr face) (rightEyeOf w fdr face) perturb flip"

text \<open>
  The scale of the specification, section 4.3: \<open>faceScale / max(dx, dy)\<close>, a
  \<open>float64\<close> division, when the face box is smaller than the mask in a direction,
  the prior value otherwise.
\<close>

definition spec_scale :: "real \<Rightarrow> Detection \<Rightarrow> decoded \<Rightarrow> real" where
  "spec_scale prior face maskImg =
     (if Detection.Scale face < Dx maskImg \<or> Detection.Scale face < Dy maskImg
      then fdiv (float64 (Detection.Scale face)) (float64 (max (Dx maskImg) (Dy maskImg)))
      else prior)"

text \<open>
  The width and the height of the specification, section 4.3: \<open>d * scale * 0.75\<close>
  for the bound \<open>d\<close> of the mask, in \<open>float64\<close>.
\<close>

definition spec_size :: "int \<Rightarrow> real \<Rightarrow> real" where
  "spec_size d s = fmul (fmul (float64 d) s) 0.75"

text \<open>The angles given to \<open>imaging.Rotate\<close>, in the images drawn on a context.\<close>

fun image_angles :: "image \<Rightarrow> real list" where
  "image_angles (Image m) = []"
| "image_angles (Resize img w h f) = image_angles img"
| "image_angles (Rotate img a c) = image_angles img @ [a]"

fun op_angles :: "gg_op \<Rightarrow> real list" where
  "op_angles (DrawImage img x0 y0) = image_angles img"
| "op_angles other = []"

definition rotations :: "gg_op list \<Rightarrow> real list" where
  "rotations ops = concat (map op_angles ops)"

text \<open>The images drawn on a context.\<close>

fun is_DrawImage :: "gg_op \<Rightarrow> bool" where
  "is_DrawImage (DrawImage img x0 y0) = True"
| "is_DrawImage other = False"

definition composites :: "gg_op list \<Rightarrow> gg_op list" where
  "composites ops = filter is_DrawImage ops"

text \<open>How often the mask asset was opened, and how often it was decoded.\<close>

definition mask_opens :: "state \<Rightarrow> nat" where
  "mask_opens st = length (filter (\<lambda>name. name = maskPath) (opened st))"

definition mask_decodes :: "state \<Rightarrow> nat" where
  "mask_decodes st = length (filter (\<lambda>name. name = maskPath) (decodes st))"

text \<open>The bytes of a file; none for a file that does not exist.\<close>

definition contents :: "filesys \<Rightarrow> string \<Rightarrow> 8 word list" where
  "contents fs name = (case fs name of None \<Rightarrow> [] | Some c \<Rightarrow> c)"

definition qualifying :: "Detection list \<Rightarrow> Detection list" where
  "qualifying faces = filter (\<lambda>face. Q face > qThresh) faces"

text \<open>
  What the encoder chosen by the extension of a file name makes of a canvas (the
  \<open>switch\<close> of lines 270-279); \<open>None\<close> when it fails or when no case matches.
\<close>

definition encoded :: "world \<Rightarrow> string \<Rightarrow> gg_op list \<Rightarrow> 8 word list option" where
  "encoded w name img =
     (if Ext name = ''.jpg'' \<or> Ext name = ''.jpeg'' then jpeg_Encode w img 100
      else if Ext name = ''.png'' then png_Encode w img
      else None)"

text \<open>
  What one pass of a loop body does when the cascade is loaded and the mask asset is
  readable. For a face above the threshold it completes, leaves the files alone,
  appends the face box and then more, with one image, to the context, and opens
  and decodes the mask asset once. For any other face it changes nothing.
\<close>

definition pass_ok :: "(state \<Rightarrow> Detection \<Rightarrow> outcome) \<Rightarrow> state \<Rightarrow> Detection \<Rightarrow> bool" where
  "pass_ok body st face \<longleftrightarrow>
     (if Q face > qThresh
      then \<exists>st' rest. body st face = Inr st' \<and> files st' = files st \<and>
             dc st' = dc st @ faceBox face @ rest \<and>
             length (composites rest) = 1 \<and>
             opened st' = opened st @ [maskPath] \<and>
             decodes st' = decodes st @ [maskPath]
      else body st face = Inr st)"

text \<open>A point that the locators return when they found nothing.\<close>

definition degenerate :: "Puploc \<Rightarrow> bool" where
  "degenerate p \<longleftrightarrow> Puploc.Row p \<le> 0 \<or> Puploc.Col p \<le> 0"

section \<open>The scenario of the specification\<close>

text \<open>
  \<open>math.Atan2\<close> on the reals: the angle of the point \<open>(x, y)\<close>, in \<open>(-\<pi>, \<pi>]\<close>.
\<close>

definition atan2 :: "real \<Rightarrow> real \<Rightarrow> real" where
  "atan2 yv xv =
     (if xv > 0 then arctan (yv / xv)
      else if xv < 0 then (if yv \<ge> 0 then arctan (yv / xv) + pi else arctan (yv / xv) - pi)
      else if yv > 0 then pi / 2
      else if yv < 0 then - (pi / 2)
      else 0)"

text \<open>
  A world for the end-to-end scenario of section 8: the landmark locator answers
  \<open>p1 = (row 130, col 90)\<close> and \<open>p2 = (row 128, col 110)\<close>, and every non-empty mask
  file decodes to a 200 by 200 image. The pupil locator answers the centre of its
  window; the encoders answer one byte for each call made on the context.
\<close>

definition scenario_flp :: "Puploc \<Rightarrow> Puploc \<Rightarrow> int \<Rightarrow> bool \<Rightarrow> Puploc" where
  "scenario_flp leftEye rightEye n flip =
     (if flip then \<lparr> Row = 128, Col = 110, Scale = 10, Perturbs = n \<rparr>
      else \<lparr> Row = 130, Col = 90, Scale = 10, Perturbs = n \<rparr>)"

definition scenario_world :: world where
  "scenario_world =
     \<lparr> RunDetector = (\<lambda>pl a flip. pl),
       flpcs = [''lp84'' \<mapsto> [scenario_flp]],
       Atan2 = atan2,
       png_Decode = (\<lambda>bytes. if bytes = [] then None
                              else Some \<lparr> Dx = 200, Dy = 200, Pix = bytes \<rparr>),
       jpeg_Encode = (\<lambda>ops quality. Some (replicate (length ops) 255)),
       png_Encode = (\<lambda>ops. Some (replicate (length ops) 137)) \<rparr>"

text \<open>
  The same world with locators that lose the left eye. The pupil locator answers
  its window with the row \<open>col - 100\<close>, which is negative left of column 100; the
  landmark locator answers the pupil of the side it is asked for.
\<close>

definition lost_pupil :: "Puploc \<Rightarrow> real \<Rightarrow> bool \<Rightarrow> Puploc" where
  "lost_pupil pl a flip = pl\<lparr> Puploc.Row := Puploc.Col pl - 100 \<rparr>"

definition echo_flp :: "Puploc \<Rightarrow> Puploc \<Rightarrow> int \<Rightarrow> bool \<Rightarrow> Puploc" where
  "echo_flp leftEye rightEye n flip = (if flip then rightEye else leftEye)"

definition lost_world :: world where
  "lost_world = scenario_world\<lparr> RunDetector := lost_pupil, flpcs := [''lp84'' \<mapsto> [echo_flp]] \<rparr>"



definition scenario_fd :: faceDetector where
  "scenario_fd =
     \<lparr> angle = 0, destination = ''out.png'', minSize = 20, maxSize = 1000,
       shiftFactor = 0.1, scaleFactor = 1.1, iouThreshold = 0.2,
       faceCascade = ''cascades/facefinder'', eyesCascade = ''cascades/puploc'',
       flplocDir = ''cascades/lps'' \<rparr>"

text \<open>
  The state after \<open>detectFaces\<close>: nothing drawn but the source image (left out), the
  mask asset on disk, and an older, longer output file.
\<close>

definition scenario_state :: state where
  "scenario_state =
     \<lparr> dc = [], imgScale = 0,
       files = [maskPath \<mapsto> [137, 80, 78, 71], ''out.png'' \<mapsto> replicate 40 7],
       opened = [], decodes = [], stdout = [] \<rparr>"

text \<open>A face whose row and column differ.\<close>

definition offcentre_face :: Detection where
  "offcentre_face =
     \<lparr> Detection.Row = 100, Detection.Col = 200, Detection.Scale = 80, Q = 10 \<rparr>"

text \<open>A face whose score is the threshold itself.\<close>

definition faint_face :: Detection where
  "faint_face =
     \<lparr> Detection.Row = 40, Detection.Col = 60, Detection.Scale = 30, Q = 5 \<rparr>"

definition scenario_face :: Detection where
  "scenario_face =
     \<lparr> Detection.Row = 100, Detection.Col = 100, Detection.Scale = 80, Q = 10 \<rparr>"


section \<open>Properties of the rounding\<close>

lemma pow2_powr: "pow2 e = 2 powr (real_of_int e)"
proof (cases "0 \<le> e")
  case True
  then show ?thesis
    by (simp add: pow2_def powr_realpow [symmetric])
next
  case False
  then have "real_of_int e = - real (nat (- e))"
    by simp
  then have "2 powr (real_of_int e) = 1 / 2 powr (real (nat (- e)))"
    by (simp only: powr_minus_divide)
  then show ?thesis
    using False by (simp only: pow2_def powr_realpow [of 2 "nat (- e)", simplified] if_False)
qed

lemma pow2_mono: "a \<le> b \<Longrightarrow> pow2 a \<le> pow2 b"
  by (simp add: pow2_powr)

lemma pow2_less: "pow2 a < pow2 b \<Longrightarrow> a < b"
  by (simp add: pow2_powr)

text \<open>The exponent of a number of the normal range is that of its binade.\<close>

lemma f64_exp_eq:
  assumes "pow2 e \<le> \<bar>x\<bar>" and "\<bar>x\<bar> < pow2 (e + 1)" and "- 1022 \<le> e" and "e \<le> 1023"
  shows "f64_exp x = e"
proof -
  have low: "pow2 (- 1022) \<le> \<bar>x\<bar>"
    using pow2_mono [OF assms(3)] assms(1) by simp
  have "Max {y \<in> {- 1022 .. 1023}. pow2 y \<le> \<bar>x\<bar>} = e"
  proof (rule Max_eqI)
    have "finite {- 1022 .. 1023 :: int}"
      by simp
    then show "finite {y \<in> {- 1022 .. 1023}. pow2 y \<le> \<bar>x\<bar>}"
      by (rule rev_finite_subset) auto
    show "e \<in> {y \<in> {- 1022 .. 1023}. pow2 y \<le> \<bar>x\<bar>}"
      using assms by simp
    fix y assume "y \<in> {y \<in> {- 1022 .. 1023}. pow2 y \<le> \<bar>x\<bar>}"
    then have "pow2 y < pow2 (e + 1)"
      using assms(2) by simp
    then show "y \<le> e"
      using pow2_less by fastforce
  qed
  then show ?thesis
    using low by (simp add: f64_exp_def)
qed

lemma f64_normal:
  assumes "pow2 e \<le> \<bar>x\<bar>" and "\<bar>x\<bar> < pow2 (e + 1)" and "- 1022 \<le> e" and "e \<le> 1023"
  shows "f64 x = real_of_int (rne (x / pow2 (e - 52))) * pow2 (e - 52)"
  by (simp add: f64_def f64_exp_eq [OF assms])





text \<open>
  The numbers of the scenario: \<open>80/200\<close> is rounded to the \<open>float64\<close> 0.4, whose
  product with 200 is rounded to 80; the size is 60, its half 30, and the product
  of 30 and the \<open>float64\<close> 0.8 is rounded to 24.
\<close>

lemma float64_80: "float64 80 = 80"
  unfolding float64_def
  by (subst f64_normal [where e = 6]) (simp_all add: pow2_def rne_def)

lemma float64_200: "float64 200 = 200"
  unfolding float64_def
  by (subst f64_normal [where e = 7]) (simp_all add: pow2_def rne_def)

lemma f64_two_fifths: "f64 (2 / 5) = 3602879701896397 / 9007199254740992"
  by (subst f64_normal [where e = "- 2"]) (simp_all add: pow2_def rne_def)

lemma f64_four_fifths: "f64 (4 / 5) = 3602879701896397 / 4503599627370496"
  by (subst f64_normal [where e = "- 1"]) (simp_all add: pow2_def rne_def)

lemma fdiv_80_scale: "fdiv 80 200 = 3602879701896397 / 9007199254740992"
  unfolding fdiv_def
  by (subst f64_normal [where e = "- 2"]) (simp_all add: pow2_def rne_def)

lemma fmul_80_scaled: "fmul 200 (3602879701896397 / 9007199254740992) = 80"
  unfolding fmul_def
  by (subst f64_normal [where e = 6]) (simp_all add: pow2_def rne_def)

lemma fmul_80_size: "fmul 80 (3 / 4) = 60"
  unfolding fmul_def
  by (subst f64_normal [where e = 5]) (simp_all add: pow2_def rne_def)

lemma fdiv_80_half: "fdiv 60 2 = 30"
  unfolding fdiv_def
  by (subst f64_normal [where e = 4]) (simp_all add: pow2_def rne_def)

lemma fmul_80_corrected: "fmul 30 (3602879701896397 / 4503599627370496) = 24"
  unfolding fmul_def
  by (subst f64_normal [where e = 4]) (simp_all add: pow2_def rne_def)







lemmas scenario_floats =
  float64_80 float64_200 f64_two_fifths f64_four_fifths fdiv_80_scale fmul_80_scaled
  fmul_80_size fdiv_80_half fmul_80_corrected


text \<open>
  The side 80 and a 308 by 308 mask: the size is 59.999999999999986, so the mask is
  resized to 59 by 59, and the halves are 29 and, with the factor 0.8, 23.
\<close>

lemma float64_308: "float64 308 = 308"
  unfolding float64_def
  by (subst f64_normal [where e = 8]) (simp_all add: pow2_def rne_def)

lemma spec_size_308:
  "spec_size 308 (fdiv (float64 80) (float64 308)) = 4222124650659839 / 70368744177664"
  "to_int (4222124650659839 / 70368744177664) = 59"
  "to_int (fdiv (4222124650659839 / 70368744177664) 2) = 29"
  "to_int (fmul (fdiv (4222124650659839 / 70368744177664) 2) (f64 0.8)) = 23"
proof -
  have s: "fdiv 80 308 = 2339532273958699 / 9007199254740992"
    unfolding fdiv_def
    by (subst f64_normal [where e = "- 2"]) (simp_all add: pow2_def rne_def)
  have a: "fmul 308 (2339532273958699 / 9007199254740992) = 5629499534213119 / 70368744177664"
    unfolding fmul_def
    by (subst f64_normal [where e = 6]) (simp_all add: pow2_def rne_def)
  have b: "fmul (5629499534213119 / 70368744177664) (3 / 4) = 4222124650659839 / 70368744177664"
    unfolding fmul_def
    by (subst f64_normal [where e = 5]) (simp_all add: pow2_def rne_def)
  have h: "fdiv (4222124650659839 / 70368744177664) 2 = 4222124650659839 / 140737488355328"
    unfolding fdiv_def
    by (subst f64_normal [where e = 4]) (simp_all add: pow2_def rne_def)
  have g: "fmul (4222124650659839 / 140737488355328) (3602879701896397 / 4503599627370496) = 6755399441055743 / 281474976710656"
    unfolding fmul_def
    by (subst f64_normal [where e = 4]) (simp_all add: pow2_def rne_def)
  show "spec_size 308 (fdiv (float64 80) (float64 308)) = 4222124650659839 / 70368744177664"
    by (simp add: spec_size_def float64_80 float64_308 s a b)
  show "to_int (4222124650659839 / 70368744177664) = 59"
    by (simp add: to_int_def)
  show "to_int (fdiv (4222124650659839 / 70368744177664) 2) = 29"
    by (simp add: h to_int_def)
  show "to_int (fmul (fdiv (4222124650659839 / 70368744177664) 2) (f64 0.8)) = 23"
    by (simp add: h g f64_four_fifths to_int_def)
qed

section \<open>Properties of the command line checks\<close>

lemma Ext_out_png: "Ext ''out.png'' = ''.png''"
  by (simp add: Ext_def)

lemma main_init_scale:
  assumes "source \<noteq> []" and "dest \<noteq> []" and "inSlice (Ext dest) fileTypes"
  shows "(\<exists>e. main_init source dest minS maxS shiftF scaleF ang iou = Inl e) \<longleftrightarrow> scaleF < 1.05"
  using assms by (simp add: main_init_def)

text \<open>
  Claim C6. The run is to abort exactly when the scale flag is at most 1.05. At the
  value 1.05 itself the check of the source, \<open>scaleFactor < 1.05\<close>, does not fire:
  with valid paths \<open>main\<close> goes on and builds the detector with scale factor 1.05,
  although its own message reads "Scale factor must be greater than 1.05".
\<close>

theorem main_init_accepts_boundary_scale:
  "main_init ''in.jpg'' ''out.png'' 20 1000 0.1 1.05 0 0.2 =
     Inr \<lparr> angle = 0, destination = ''out.png'', minSize = 20, maxSize = 1000,
           shiftFactor = 0.1, scaleFactor = 1.05, iouThreshold = 0.2,
           faceCascade = ''cascades/facefinder'', eyesCascade = ''cascades/puploc'',
           flplocDir = ''cascades/lps'' \<rparr>"
  by (simp add: main_init_def Ext_def fileTypes_def)

section \<open>One face\<close>

lemma readMask_ok:
  assumes "files st maskPath = Some bytes" and "png_Decode w bytes = Some m"
  shows "readMask w st =
     Inr (m, st\<lparr> opened := opened st @ [maskPath], decodes := decodes st @ [maskPath] \<rparr>)"
  using assms by (simp add: readMask_def OpenFile_def ReadAll_def Let_def)

lemma overlay_skip: "\<not> Q face > qThresh \<Longrightarrow> overlay w fdr st face = Inr st"
  by (simp add: overlay_def)

lemma overlay_diag_skip: "\<not> Q face > qThresh \<Longrightarrow> overlay_diag w fdr st face = Inr st"
  by (simp add: overlay_diag_def)

lemma overlay_ok:
  assumes "Q face > qThresh" and "lp84 w = Some c"
    and "files st maskPath = Some bytes" and "png_Decode w bytes = Some m"
  shows "overlay w fdr st face =
     Inr (st\<lparr> dc := dc st @ faceBox face @
                  composite m (align w (imgScale st) face
                     (landmark w fdr c face False) (landmark w fdr c face True) m),
              imgScale := t_imgScale (align w (imgScale st) face
                     (landmark w fdr c face False) (landmark w fdr c face True) m),
              opened := opened st @ [maskPath],
              decodes := decodes st @ [maskPath] \<rparr>)"
  using assms
  by (simp add: overlay_def Let_def landmark_def readMask_ok [where bytes = bytes and m = m])

lemma overlay_diag_ok:
  assumes "Q face > qThresh" and "lp84 w = Some c"
    and "files st maskPath = Some bytes" and "png_Decode w bytes = Some m"
  shows "overlay_diag w fdr st face =
     Inr (st\<lparr> dc := dc st @ faceBox face @
                  marker (landmark w fdr c face False) @ marker (landmark w fdr c face True) @
                  composite m (align_diag w (imgScale st) face
                     (toPoint (landmark w fdr c face False))
                     (toPoint (landmark w fdr c face True)) m),
              imgScale := t_imgScale (align_diag w (imgScale st) face
                     (toPoint (landmark w fdr c face False))
                     (toPoint (landmark w fdr c face True)) m),
              opened := opened st @ [maskPath],
              decodes := decodes st @ [maskPath],
              stdout := stdout st @ printed face m (align_diag w (imgScale st) face
                     (toPoint (landmark w fdr c face False))
                     (toPoint (landmark w fdr c face True)) m) \<rparr>)"
  using assms
  by (simp add: overlay_diag_def Let_def landmark_def readMask_ok [where bytes = bytes and m = m])

lemma rotations_append: "rotations (xs @ ys) = rotations xs @ rotations ys"
  by (simp add: rotations_def)

lemma rotations_faceBox: "rotations (faceBox face) = []"
  by (simp add: rotations_def faceBox_def)

lemma rotations_marker: "rotations (marker p) = []"
  by (auto simp add: rotations_def marker_def drawDetections_def)

lemma rotations_composite: "rotations (composite m t) = [t_angle t]"
  by (simp add: rotations_def composite_def Let_def)

lemma align_angle: "t_angle (align w s0 face p1 p2 m) = spec_angle w p1 p2"
  by (simp add: align_def spec_angle_def Let_def)

lemma align_diag_angle:
  "t_angle (align_diag w s0 face (toPoint p1) (toPoint p2) m) = spec_angle w p1 p2"
  by (simp add: align_diag_def spec_angle_def toPoint_def Let_def)

text \<open>
  Claim C1. For a face above the threshold, with the landmark cascade loaded and the
  mask asset readable, the loop body of either source text completes, and the one
  angle it hands to \<open>imaging.Rotate\<close> is
  \<open>1 - (atan2(p2.col - p1.col, p2.row - p1.row) * 180 / \<pi> / 90)\<close>, where \<open>p1\<close> is the
  landmark point for the flag \<open>false\<close> and \<open>p2\<close> the one for the flag \<open>true\<close>.
\<close>

theorem rotation_angle_formula:
  assumes "Q face > qThresh" and "lp84 w = Some c"
    and "files st maskPath = Some bytes" and "png_Decode w bytes = Some m"
  shows "(\<exists>st'. overlay w fdr st face = Inr st' \<and>
            rotations (dc st') = rotations (dc st) @
              [spec_angle w (landmark w fdr c face False) (landmark w fdr c face True)]) \<and>
         (\<exists>st'. overlay_diag w fdr st face = Inr st' \<and>
            rotations (dc st') = rotations (dc st) @
              [spec_angle w (landmark w fdr c face False) (landmark w fdr c face True)])"
proof
  show "\<exists>st'. overlay w fdr st face = Inr st' \<and>
            rotations (dc st') = rotations (dc st) @
              [spec_angle w (landmark w fdr c face False) (landmark w fdr c face True)]"
    by (simp add: overlay_ok [OF assms] rotations_append rotations_faceBox
        rotations_composite align_angle)
  show "\<exists>st'. overlay_diag w fdr st face = Inr st' \<and>
            rotations (dc st') = rotations (dc st) @
              [spec_angle w (landmark w fdr c face False) (landmark w fdr c face True)]"
    by (simp add: overlay_diag_ok [OF assms] rotations_append rotations_faceBox
        rotations_marker rotations_composite align_diag_angle)
qed

section \<open>The scenario world satisfies the assumptions\<close>

lemma scenario_Q: "Q scenario_face > qThresh"
  by (simp add: scenario_face_def qThresh_def)

lemma scenario_lp84: "lp84 scenario_world = Some scenario_flp"
  by (simp add: lp84_def scenario_world_def)

lemma scenario_mask: "files scenario_state maskPath = Some [137, 80, 78, 71]"
  by (simp add: scenario_state_def maskPath_def)

lemma scenario_decode:
  "png_Decode scenario_world [137, 80, 78, 71] = Some \<lparr> Dx = 200, Dy = 200, Pix = [137, 80, 78, 71] \<rparr>"
  by (simp add: scenario_world_def)

theorem rotation_angle_formula_witness:
  "rotations (dc (reached (overlay scenario_world scenario_fd scenario_state scenario_face))) =
     [1 - (atan2 20 (- 2) * 180 / pi / 90)] \<and>
   rotations (dc (reached (overlay_diag scenario_world scenario_fd scenario_state scenario_face))) =
     [1 - (atan2 20 (- 2) * 180 / pi / 90)]"
  using rotation_angle_formula [OF scenario_Q scenario_lp84 scenario_mask scenario_decode,
      of scenario_fd]
  by (auto simp add: reached_def spec_angle_def landmark_def scenario_flp_def
      scenario_world_def scenario_state_def rotations_def)

section \<open>The alignment of one face\<close>



lemma align_size:
  "width (align w s0 face p1 p2 m) = spec_size (Dx m) (spec_scale s0 face m)"
  "height (align w s0 face p1 p2 m) = spec_size (Dy m) (spec_scale s0 face m)"
  by (simp_all add: align_def spec_scale_def spec_size_def Let_def max_def)

lemma align_diag_size:
  "width (align_diag w s0 face q1 q2 m) = spec_size (Dx m) (spec_scale s0 face m)"
  "height (align_diag w s0 face q1 q2 m) = spec_size (Dy m) (spec_scale s0 face m)"
  by (simp_all add: align_diag_def spec_scale_def spec_size_def Let_def max_def)

lemma align_origin:
  "tx (align w s0 face p1 p2 m) =
     Detection.Col face - to_int (fdiv (width (align w s0 face p1 p2 m)) 2)"
  "ty (align w s0 face p1 p2 m) =
     Puploc.Row p1 + idiv (Puploc.Row p1 - Puploc.Row p2) 2
       - to_int (fdiv (height (align w s0 face p1 p2 m)) 2)"
  by (simp_all add: align_def Let_def)

lemma align_diag_origin:
  "tx (align_diag w s0 face (toPoint p1) (toPoint p2) m) =
     Detection.Row face
       - to_int (fmul (fdiv (width (align_diag w s0 face (toPoint p1) (toPoint p2) m)) 2) (f64 0.8))"
  "ty (align_diag w s0 face (toPoint p1) (toPoint p2) m) =
     Puploc.Row p1 + idiv (Puploc.Row p1 - Puploc.Row p2) 2
       - to_int (fdiv (height (align_diag w s0 face (toPoint p1) (toPoint p2) m)) 2)"
  by (simp_all add: align_diag_def toPoint_def Let_def)

lemma composites_append: "composites (xs @ ys) = composites xs @ composites ys"
  by (simp add: composites_def)

lemma composites_faceBox: "composites (faceBox face) = []"
  by (simp add: composites_def faceBox_def)

lemma composites_marker: "composites (marker p) = []"
  by (simp add: composites_def marker_def drawDetections_def)

lemma composites_composite: "composites (composite m t) = composite m t"
  by (simp add: composites_def composite_def Let_def)

lemma composites_DrawImage: "composites [DrawImage img x0 y0] = [DrawImage img x0 y0]"
  by (simp add: composites_def)

lemma dc_writeOutput: "dc (reached (writeOutput w fdr st)) = dc st"
  by (simp add: writeOutput_def reached_def Let_def split: sum.splits option.splits prod.splits)








text \<open>
  Claim C3. The origin is to be \<open>faceCol - width/2\<close>, in the text with the factor 0.8
  \<open>faceCol - 0.8 * width/2\<close>, and \<open>p1.row + (p1.row - p2.row)/2 - height/2\<close>. The
  second source text takes the horizontal origin from the row of the face: for the
  face at row 100, column 200 with side 80 and the 200 by 200 mask it draws the mask
  at \<open>x = 100 - 24 = 76\<close>, where the claim has \<open>200 - 24 = 176\<close>. (The first text
  computes what the claim says, \<open>align_origin\<close>.)
\<close>

theorem diag_origin_from_row:
  "composites (dc (reached (overlay_diag scenario_world scenario_fd scenario_state offcentre_face))) =
     [DrawImage (Rotate (Resize (Image \<lparr> Dx = 200, Dy = 200, Pix = [137, 80, 78, 71] \<rparr>) 60 60 Lanczos)
        (1 - (atan2 20 (- 2) * 180 / pi / 90)) Transparent) 76 101] \<and>
   Detection.Col offcentre_face - to_int (60 / 2 * 0.8) = 176"
proof -
  have q: "Q offcentre_face > qThresh"
    by (simp add: offcentre_face_def qThresh_def)
  have run: "dc (reached (overlay_diag scenario_world scenario_fd scenario_state offcentre_face)) =
      dc scenario_state @ faceBox offcentre_face @
      marker (landmark scenario_world scenario_fd scenario_flp offcentre_face False) @
      marker (landmark scenario_world scenario_fd scenario_flp offcentre_face True) @
      composite \<lparr> Dx = 200, Dy = 200, Pix = [137, 80, 78, 71] \<rparr>
        (align_diag scenario_world (imgScale scenario_state) offcentre_face
           (toPoint (landmark scenario_world scenario_fd scenario_flp offcentre_face False))
           (toPoint (landmark scenario_world scenario_fd scenario_flp offcentre_face True))
           \<lparr> Dx = 200, Dy = 200, Pix = [137, 80, 78, 71] \<rparr>)"
    by (simp add: overlay_diag_ok [OF q scenario_lp84 scenario_mask scenario_decode] reached_def)
  have x: "Detection.Col offcentre_face - to_int (60 / 2 * 0.8) = 176"
    by (simp add: offcentre_face_def to_int_def)
  show ?thesis
    unfolding run
    by (simp add: x composites_append composites_faceBox composites_marker composite_def Let_def
        composites_DrawImage align_diag_def toPoint_def landmark_def scenario_flp_def
        offcentre_face_def scenario_world_def scenario_state_def to_int_def idiv_def
        scenario_floats)
qed

text \<open>
  Claim C5. The face (row 100, column 100, side 80, score 10), a 200 by 200 mask and
  landmark points \<open>p1\<close> = (row 130, column 90) and \<open>p2\<close> = (row 128, column 110): the
  alignment of the mask generator gives the scale 0.4 (the \<open>float64\<close> 0.4, to which
  \<open>80/200\<close> is rounded), width and height 60, the angle
  \<open>1 - (atan2(20, -2) * 180 / \<pi> / 90)\<close> and the origin (70, 101); the loop body
  outlines the face and then draws the mask, resized to 60 by 60 and then rotated by
  that angle, at that origin.
\<close>

theorem end_to_end_scenario:
  assumes "lp84 w = Some c"
    and "files st maskPath = Some bytes" and "png_Decode w bytes = Some m"
    and "Dx m = 200" and "Dy m = 200"
    and "Puploc.Row (landmark w fdr c scenario_face False) = 130"
    and "Puploc.Col (landmark w fdr c scenario_face False) = 90"
    and "Puploc.Row (landmark w fdr c scenario_face True) = 128"
    and "Puploc.Col (landmark w fdr c scenario_face True) = 110"
  shows "align w (imgScale st) scenario_face
            (landmark w fdr c scenario_face False) (landmark w fdr c scenario_face True) m =
           \<lparr> t_angle = 1 - (Atan2 w 20 (- 2) * 180 / pi / 90), t_imgScale = f64 0.4,
             width = 60, height = 60, tx = 70, ty = 101 \<rparr> \<and>
         overlay w fdr st scenario_face =
           Inr (st\<lparr> dc := dc st @ faceBox scenario_face @
                        [DrawImage (Rotate (Resize (Image m) 60 60 Lanczos)
                           (1 - (Atan2 w 20 (- 2) * 180 / pi / 90)) Transparent) 70 101],
                    imgScale := f64 0.4,
                    opened := opened st @ [maskPath],
                    decodes := decodes st @ [maskPath] \<rparr>)"
proof -
  have t: "align w (imgScale st) scenario_face
            (landmark w fdr c scenario_face False) (landmark w fdr c scenario_face True) m =
           \<lparr> t_angle = 1 - (Atan2 w 20 (- 2) * 180 / pi / 90), t_imgScale = f64 0.4,
             width = 60, height = 60, tx = 70, ty = 101 \<rparr>"
    using assms(4-9)
    by (simp add: align_def Let_def scenario_face_def to_int_def idiv_def scenario_floats)
  show ?thesis
    by (simp add: t overlay_ok [OF scenario_Q assms(1-3)] composite_def Let_def to_int_def)
qed

lemma scenario_landmarks:
  "Puploc.Row (landmark scenario_world scenario_fd scenario_flp scenario_face False) = 130"
  "Puploc.Col (landmark scenario_world scenario_fd scenario_flp scenario_face False) = 90"
  "Puploc.Row (landmark scenario_world scenario_fd scenario_flp scenario_face True) = 128"
  "Puploc.Col (landmark scenario_world scenario_fd scenario_flp scenario_face True) = 110"
  by (simp_all add: landmark_def scenario_flp_def)

theorem end_to_end_scenario_witness:
  "composite \<lparr> Dx = 200, Dy = 200, Pix = [137, 80, 78, 71] \<rparr>
     (align scenario_world 0 scenario_face
        (landmark scenario_world scenario_fd scenario_flp scenario_face False)
        (landmark scenario_world scenario_fd scenario_flp scenario_face True)
        \<lparr> Dx = 200, Dy = 200, Pix = [137, 80, 78, 71] \<rparr>) =
     [DrawImage (Rotate (Resize (Image \<lparr> Dx = 200, Dy = 200, Pix = [137, 80, 78, 71] \<rparr>) 60 60 Lanczos)
        (1 - (atan2 20 (- 2) * 180 / pi / 90)) Transparent) 70 101] \<and>
   composites (dc (reached (overlay scenario_world scenario_fd scenario_state scenario_face))) =
     [DrawImage (Rotate (Resize (Image \<lparr> Dx = 200, Dy = 200, Pix = [137, 80, 78, 71] \<rparr>) 60 60 Lanczos)
        (1 - (atan2 20 (- 2) * 180 / pi / 90)) Transparent) 70 101]"
proof -
  have s: "imgScale scenario_state = 0" "dc scenario_state = []" "Atan2 scenario_world = atan2"
    by (simp_all add: scenario_state_def scenario_world_def)
  have "align scenario_world (imgScale scenario_state) scenario_face
        (landmark scenario_world scenario_fd scenario_flp scenario_face False)
        (landmark scenario_world scenario_fd scenario_flp scenario_face True)
        \<lparr> Dx = 200, Dy = 200, Pix = [137, 80, 78, 71] \<rparr> =
       \<lparr> t_angle = 1 - (Atan2 scenario_world 20 (- 2) * 180 / pi / 90), t_imgScale = f64 0.4,
         width = 60, height = 60, tx = 70, ty = 101 \<rparr> \<and>
     overlay scenario_world scenario_fd scenario_state scenario_face =
       Inr (scenario_state\<lparr> dc := dc scenario_state @ faceBox scenario_face @
                [DrawImage (Rotate (Resize (Image \<lparr> Dx = 200, Dy = 200, Pix = [137, 80, 78, 71] \<rparr>)
                     60 60 Lanczos)
                   (1 - (Atan2 scenario_world 20 (- 2) * 180 / pi / 90)) Transparent) 70 101],
              imgScale := f64 0.4,
              opened := opened scenario_state @ [maskPath],
              decodes := decodes scenario_state @ [maskPath] \<rparr>)"
    by (rule end_to_end_scenario [OF scenario_lp84 scenario_mask scenario_decode _ _
          scenario_landmarks]) simp_all
  then show ?thesis
    unfolding s
    by (simp add: reached_def composite_def Let_def composites_append composites_faceBox
        composites_DrawImage to_int_def)
qed

section \<open>The loop over the faces\<close>

lemma qualifying_Nil: "qualifying [] = []"
  by (simp add: qualifying_def)

lemma qualifying_Cons:
  "qualifying (face # faces) = (if Q face > qThresh then face # qualifying faces else qualifying faces)"
  by (simp add: qualifying_def)

lemma qualifying_5: "qualifying faces = filter (\<lambda>face. 5 < Q face) faces"
  by (simp add: qualifying_def qThresh_def)

lemma overlay_pass:
  assumes "lp84 w = Some c" and "files st maskPath = Some bytes" and "png_Decode w bytes = Some m"
  shows "pass_ok (overlay w fdr) st face"
proof (cases "Q face > qThresh")
  case True
  show ?thesis
    unfolding pass_ok_def
    by (simp add: True overlay_ok [OF True assms] composites_composite)
       (simp add: composite_def Let_def)
next
  case False
  then show ?thesis
    unfolding pass_ok_def by (simp add: overlay_skip)
qed

lemma overlay_diag_pass:
  assumes "lp84 w = Some c" and "files st maskPath = Some bytes" and "png_Decode w bytes = Some m"
  shows "pass_ok (overlay_diag w fdr) st face"
proof (cases "Q face > qThresh")
  case True
  let ?t = "align_diag w (imgScale st) face (toPoint (landmark w fdr c face False))
              (toPoint (landmark w fdr c face True)) m"
  have one: "length (composites (marker (landmark w fdr c face False) @
      marker (landmark w fdr c face True) @ composite m ?t)) = 1"
    by (simp add: composites_append composites_marker composites_composite)
       (simp add: composite_def Let_def)
  show ?thesis
    unfolding pass_ok_def
    using one by (auto simp add: True overlay_diag_ok [OF True assms])
next
  case False
  then show ?thesis
    unfolding pass_ok_def by (simp add: overlay_diag_skip)
qed

lemma forFaces_passes:
  assumes pass: "\<And>st face. files st maskPath = Some bytes \<Longrightarrow> pass_ok body st face"
    and "files st maskPath = Some bytes"
  shows "\<exists>st' ops. forFaces body st faces = Inr st' \<and> files st' = files st \<and>
           dc st' = dc st @ ops \<and>
           length (composites ops) = length (qualifying faces) \<and>
           opened st' = opened st @ replicate (length (qualifying faces)) maskPath \<and>
           decodes st' = decodes st @ replicate (length (qualifying faces)) maskPath \<and>
           (\<forall>face \<in> set (qualifying faces). \<exists>pre post. ops = pre @ faceBox face @ post)"
  using assms(2)
proof (induction faces arbitrary: st)
  case Nil
  then show ?case by (simp add: qualifying_Nil composites_def)
next
  case (Cons face faces)
  show ?case
  proof (cases "Q face > qThresh")
    case True
    from pass [OF Cons.prems, of face] True obtain st1 rest where
      st1: "body st face = Inr st1" "files st1 = files st"
        "dc st1 = dc st @ faceBox face @ rest"
        "length (composites rest) = 1"
        "opened st1 = opened st @ [maskPath]"
        "decodes st1 = decodes st @ [maskPath]"
      unfolding pass_ok_def by auto
    have "files st1 maskPath = Some bytes"
      using st1(2) Cons.prems by simp
    from Cons.IH [OF this] obtain st' ops where
      st': "forFaces body st1 faces = Inr st'" "files st' = files st1"
        "dc st' = dc st1 @ ops"
        "length (composites ops) = length (qualifying faces)"
        "opened st' = opened st1 @ replicate (length (qualifying faces)) maskPath"
        "decodes st' = decodes st1 @ replicate (length (qualifying faces)) maskPath"
        "\<forall>f \<in> set (qualifying faces). \<exists>pre post. ops = pre @ faceBox f @ post"
      by blast
    have later: "\<forall>f \<in> set (qualifying faces).
        \<exists>pre post. faceBox face @ rest @ ops = pre @ faceBox f @ post"
    proof
      fix f assume "f \<in> set (qualifying faces)"
      with st'(7) obtain pre post where "ops = pre @ faceBox f @ post" by blast
      then have "faceBox face @ rest @ ops = (faceBox face @ rest @ pre) @ faceBox f @ post"
        by simp
      then show "\<exists>pre post. faceBox face @ rest @ ops = pre @ faceBox f @ post" by blast
    qed
    have first: "\<exists>pre post. faceBox face @ rest @ ops = pre @ faceBox face @ post"
      by (rule exI [of _ "[]"], rule exI [of _ "rest @ ops"]) simp
    show ?thesis
      using True st1 st' later first
      by (intro exI [of _ st'] exI [of _ "faceBox face @ rest @ ops"])
         (simp add: qualifying_Cons composites_append composites_faceBox replicate_app_Cons_same)
  next
    case False
    from pass [OF Cons.prems, of face] False have st1: "body st face = Inr st"
      unfolding pass_ok_def by simp
    from Cons.IH [OF Cons.prems] obtain st' ops where
      st': "forFaces body st faces = Inr st'" "files st' = files st"
        "dc st' = dc st @ ops"
        "length (composites ops) = length (qualifying faces)"
        "opened st' = opened st @ replicate (length (qualifying faces)) maskPath"
        "decodes st' = decodes st @ replicate (length (qualifying faces)) maskPath"
        "\<forall>f \<in> set (qualifying faces). \<exists>pre post. ops = pre @ faceBox f @ post"
      by blast
    show ?thesis
      using False st1 st'
      by (intro exI [of _ st'] exI [of _ ops]) (simp add: qualifying_Cons)
  qed
qed

lemma forFaces_overlay:
  assumes "lp84 w = Some c" and "files st maskPath = Some bytes" and "png_Decode w bytes = Some m"
  shows "\<exists>st' ops. forFaces (overlay w fdr) st faces = Inr st' \<and> files st' = files st \<and>
           dc st' = dc st @ ops \<and>
           length (composites ops) = length (qualifying faces) \<and>
           opened st' = opened st @ replicate (length (qualifying faces)) maskPath \<and>
           decodes st' = decodes st @ replicate (length (qualifying faces)) maskPath \<and>
           (\<forall>face \<in> set (qualifying faces). \<exists>pre post. ops = pre @ faceBox face @ post)"
  by (rule forFaces_passes [where bytes = bytes, OF overlay_pass [OF assms(1) _ assms(3)] assms(2)])

lemma forFaces_overlay_diag:
  assumes "lp84 w = Some c" and "files st maskPath = Some bytes" and "png_Decode w bytes = Some m"
  shows "\<exists>st' ops. forFaces (overlay_diag w fdr) st faces = Inr st' \<and> files st' = files st \<and>
           dc st' = dc st @ ops \<and>
           length (composites ops) = length (qualifying faces) \<and>
           opened st' = opened st @ replicate (length (qualifying faces)) maskPath \<and>
           decodes st' = decodes st @ replicate (length (qualifying faces)) maskPath \<and>
           (\<forall>face \<in> set (qualifying faces). \<exists>pre post. ops = pre @ faceBox face @ post)"
  by (rule forFaces_passes [where bytes = bytes, OF overlay_diag_pass [OF assms(1) _ assms(3)] assms(2)])

text \<open>What the output stage adds to the record of the calls, and what it leaves in the destination.\<close>

lemma opened_writeOutput:
  "opened (reached (writeOutput w fdr st)) = opened st @ [destination fdr]"
  by (simp add: writeOutput_def reached_def Let_def split: sum.splits option.splits prod.splits)

lemma decodes_writeOutput: "decodes (reached (writeOutput w fdr st)) = decodes st"
  by (simp add: writeOutput_def reached_def Let_def split: sum.splits option.splits prod.splits)

lemma writeOutput_contents:
  "files (reached (writeOutput w fdr st)) (destination fdr) =
     (case encoded w (destination fdr) (dc st) of
        Some enc \<Rightarrow> Some (enc @ drop (length enc) (contents (files st) (destination fdr)))
      | None \<Rightarrow> Some (contents (files st) (destination fdr)))"
  by (simp add: writeOutput_def OpenFile_def Write_def encoded_def contents_def Let_def reached_def
      split: option.splits)

section \<open>Which faces are overlaid, and how often the mask asset is read\<close>

text \<open>
  Claim C4. With the cascade loaded and the mask asset readable, the loop body of
  either source text draws an image for a detection if and only if its score is
  greater than 5, and leaves the whole state as it was otherwise; over a list of
  detections the loop completes and draws one image for each detection with a score
  greater than 5.
\<close>

theorem overlay_iff_score:
  assumes "lp84 w = Some c" and "files st maskPath = Some bytes" and "png_Decode w bytes = Some m"
  shows "(\<exists>st'. overlay w fdr st face = Inr st' \<and>
            length (composites (dc st')) =
              length (composites (dc st)) + (if 5 < Q face then 1 else 0) \<and>
            (st' = st) = (Q face \<le> 5)) \<and>
         (\<exists>st'. overlay_diag w fdr st face = Inr st' \<and>
            length (composites (dc st')) =
              length (composites (dc st)) + (if 5 < Q face then 1 else 0) \<and>
            (st' = st) = (Q face \<le> 5)) \<and>
         (\<exists>st'. forFaces (overlay w fdr) st faces = Inr st' \<and>
            length (composites (dc st')) =
              length (composites (dc st)) + length (filter (\<lambda>f. 5 < Q f) faces)) \<and>
         (\<exists>st'. forFaces (overlay_diag w fdr) st faces = Inr st' \<and>
            length (composites (dc st')) =
              length (composites (dc st)) + length (filter (\<lambda>f. 5 < Q f) faces))"
proof (intro conjI)
  have one: "\<And>body. pass_ok body st face \<Longrightarrow>
      \<exists>st'. body st face = Inr st' \<and>
        length (composites (dc st')) =
          length (composites (dc st)) + (if 5 < Q face then 1 else 0) \<and>
        (st' = st) = (Q face \<le> 5)"
  proof -
    fix body assume p: "pass_ok body st face"
    show "\<exists>st'. body st face = Inr st' \<and>
        length (composites (dc st')) =
          length (composites (dc st)) + (if 5 < Q face then 1 else 0) \<and>
        (st' = st) = (Q face \<le> 5)"
    proof (cases "Q face > qThresh")
      case True
      with p obtain st' rest where
        st': "body st face = Inr st'" "dc st' = dc st @ faceBox face @ rest"
          "length (composites rest) = 1"
        unfolding pass_ok_def by auto
      have "dc st' \<noteq> dc st"
        using st'(2) by (simp add: faceBox_def)
      then have "st' \<noteq> st" by auto
      then show ?thesis
        using True st' by (simp add: qThresh_def composites_append composites_faceBox)
    next
      case False
      with p have "body st face = Inr st"
        unfolding pass_ok_def by simp
      then show ?thesis
        using False by (simp add: qThresh_def)
    qed
  qed
  show "\<exists>st'. overlay w fdr st face = Inr st' \<and>
            length (composites (dc st')) =
              length (composites (dc st)) + (if 5 < Q face then 1 else 0) \<and>
            (st' = st) = (Q face \<le> 5)"
    by (rule one [OF overlay_pass [OF assms]])
  show "\<exists>st'. overlay_diag w fdr st face = Inr st' \<and>
            length (composites (dc st')) =
              length (composites (dc st)) + (if 5 < Q face then 1 else 0) \<and>
            (st' = st) = (Q face \<le> 5)"
    by (rule one [OF overlay_diag_pass [OF assms]])
  show "\<exists>st'. forFaces (overlay w fdr) st faces = Inr st' \<and>
            length (composites (dc st')) =
              length (composites (dc st)) + length (filter (\<lambda>f. 5 < Q f) faces)"
    using forFaces_overlay [OF assms, of fdr faces]
    by (auto simp add: composites_append qualifying_5)
  show "\<exists>st'. forFaces (overlay_diag w fdr) st faces = Inr st' \<and>
            length (composites (dc st')) =
              length (composites (dc st)) + length (filter (\<lambda>f. 5 < Q f) faces)"
    using forFaces_overlay_diag [OF assms, of fdr faces]
    by (auto simp add: composites_append qualifying_5)
qed

theorem overlay_iff_score_witness:
  "overlay scenario_world scenario_fd scenario_state faint_face = Inr scenario_state \<and>
   overlay_diag scenario_world scenario_fd scenario_state faint_face = Inr scenario_state \<and>
   length (composites (dc (reached (forFaces (overlay scenario_world scenario_fd) scenario_state
     [faint_face, scenario_face, faint_face])))) = 1 \<and>
   length (composites (dc (reached (forFaces (overlay_diag scenario_world scenario_fd) scenario_state
     [faint_face, scenario_face, faint_face])))) = 1"
proof -
  have q: "Q faint_face \<le> 5" "5 < Q scenario_face" "dc scenario_state = []"
    by (simp_all add: faint_face_def scenario_face_def scenario_state_def)
  from overlay_iff_score [OF scenario_lp84 scenario_mask scenario_decode,
      of scenario_fd faint_face "[faint_face, scenario_face, faint_face]"]
  show ?thesis
    using q by (auto simp add: reached_def composites_def)
qed

text \<open>
  Claim C8, as the code has it. The mask asset is opened and decoded inside the loop,
  once for each detection with a score greater than 5. With the cascade loaded and
  the asset readable, the loop of either source text completes and \<open>drawFaces\<close> goes
  on to the output; when \<open>n\<close> detections have such a score, the calls of
  \<open>os.OpenFile\<close> of the run are \<open>n\<close> calls on the mask asset followed by the one call
  on the destination, and the calls of \<open>png.Decode\<close> are \<open>n\<close> calls on the mask asset
  (none, when \<open>n = 0\<close>). So the asset is decoded \<open>n\<close> times and its path is opened \<open>n\<close>
  times, and once more for writing if it is also the destination. Nothing is kept
  from one face to the next.
\<close>

theorem mask_opened_per_qualifying_face:
  assumes "lp84 w = Some c" and "files st maskPath = Some bytes" and "png_Decode w bytes = Some m"
  shows
    "let n = length (filter (\<lambda>f. 5 < Q f) faces)
     in (\<exists>st'. forFaces (overlay w fdr) (st\<lparr>imgScale := 0\<rparr>) faces = Inr st' \<and>
           drawFaces w fdr st faces = writeOutput w fdr st' \<and>
           opened st' = opened st @ replicate n maskPath \<and>
           decodes st' = decodes st @ replicate n maskPath) \<and>
        opened (reached (drawFaces w fdr st faces)) =
          opened st @ replicate n maskPath @ [destination fdr] \<and>
        decodes (reached (drawFaces w fdr st faces)) = decodes st @ replicate n maskPath \<and>
        mask_decodes (reached (drawFaces w fdr st faces)) = mask_decodes st + n \<and>
        mask_opens (reached (drawFaces w fdr st faces)) =
          mask_opens st + n + (if destination fdr = maskPath then 1 else 0) \<and>
        (\<exists>st'. forFaces (overlay_diag w fdr) (st\<lparr>imgScale := 0\<rparr>) faces = Inr st' \<and>
           drawFaces_diag w fdr st faces = writeOutput w fdr st' \<and>
           opened st' = opened st @ replicate n maskPath \<and>
           decodes st' = decodes st @ replicate n maskPath) \<and>
        opened (reached (drawFaces_diag w fdr st faces)) =
          opened st @ replicate n maskPath @ [destination fdr] \<and>
        decodes (reached (drawFaces_diag w fdr st faces)) = decodes st @ replicate n maskPath \<and>
        mask_decodes (reached (drawFaces_diag w fdr st faces)) = mask_decodes st + n \<and>
        mask_opens (reached (drawFaces_diag w fdr st faces)) =
          mask_opens st + n + (if destination fdr = maskPath then 1 else 0)"
proof -
  let ?n = "length (filter (\<lambda>f. 5 < Q f) faces)"
  have m0: "files (st\<lparr>imgScale := 0\<rparr>) maskPath = Some bytes"
    using assms(2) by simp
  from forFaces_overlay [OF assms(1) m0 assms(3), of fdr faces] obtain st1 where
    st1: "forFaces (overlay w fdr) (st\<lparr>imgScale := 0\<rparr>) faces = Inr st1"
      "opened st1 = opened st @ replicate ?n maskPath"
      "decodes st1 = decodes st @ replicate ?n maskPath"
    by (auto simp add: qualifying_5)
  from forFaces_overlay_diag [OF assms(1) m0 assms(3), of fdr faces] obtain st2 where
    st2: "forFaces (overlay_diag w fdr) (st\<lparr>imgScale := 0\<rparr>) faces = Inr st2"
      "opened st2 = opened st @ replicate ?n maskPath"
      "decodes st2 = decodes st @ replicate ?n maskPath"
    by (auto simp add: qualifying_5)
  have r1: "drawFaces w fdr st faces = writeOutput w fdr st1"
    by (simp add: drawFaces_def st1(1))
  have r2: "drawFaces_diag w fdr st faces = writeOutput w fdr st2"
    by (simp add: drawFaces_diag_def st2(1))
  have o1: "opened (reached (drawFaces w fdr st faces)) =
      opened st @ replicate ?n maskPath @ [destination fdr]"
    by (simp add: r1 opened_writeOutput st1(2))
  have d1: "decodes (reached (drawFaces w fdr st faces)) = decodes st @ replicate ?n maskPath"
    by (simp add: r1 decodes_writeOutput st1(3))
  have o2: "opened (reached (drawFaces_diag w fdr st faces)) =
      opened st @ replicate ?n maskPath @ [destination fdr]"
    by (simp add: r2 opened_writeOutput st2(2))
  have d2: "decodes (reached (drawFaces_diag w fdr st faces)) = decodes st @ replicate ?n maskPath"
    by (simp add: r2 decodes_writeOutput st2(3))
  have loop1: "\<exists>st'. forFaces (overlay w fdr) (st\<lparr>imgScale := 0\<rparr>) faces = Inr st' \<and>
           drawFaces w fdr st faces = writeOutput w fdr st' \<and>
           opened st' = opened st @ replicate ?n maskPath \<and>
           decodes st' = decodes st @ replicate ?n maskPath"
    using st1 r1 by blast
  have loop2: "\<exists>st'. forFaces (overlay_diag w fdr) (st\<lparr>imgScale := 0\<rparr>) faces = Inr st' \<and>
           drawFaces_diag w fdr st faces = writeOutput w fdr st' \<and>
           opened st' = opened st @ replicate ?n maskPath \<and>
           decodes st' = decodes st @ replicate ?n maskPath"
    using st2 r2 by blast
  have c1: "mask_decodes (reached (drawFaces w fdr st faces)) = mask_decodes st + ?n"
    by (simp add: mask_decodes_def d1)
  have c2: "mask_decodes (reached (drawFaces_diag w fdr st faces)) = mask_decodes st + ?n"
    by (simp add: mask_decodes_def d2)
  have c3: "mask_opens (reached (drawFaces w fdr st faces)) =
      mask_opens st + ?n + (if destination fdr = maskPath then 1 else 0)"
    by (simp add: mask_opens_def o1)
  have c4: "mask_opens (reached (drawFaces_diag w fdr st faces)) =
      mask_opens st + ?n + (if destination fdr = maskPath then 1 else 0)"
    by (simp add: mask_opens_def o2)
  show ?thesis
    unfolding Let_def
    using loop1 loop2 o1 d1 o2 d2 c1 c2 c3 c4 by blast
qed

theorem mask_opened_per_qualifying_face_witness:
  "opened (reached (drawFaces scenario_world scenario_fd scenario_state
     [scenario_face, faint_face, offcentre_face])) = [maskPath, maskPath, ''out.png''] \<and>
   decodes (reached (drawFaces scenario_world scenario_fd scenario_state
     [scenario_face, faint_face, offcentre_face])) = [maskPath, maskPath] \<and>
   opened (reached (drawFaces_diag scenario_world scenario_fd scenario_state
     [scenario_face, faint_face, offcentre_face])) = [maskPath, maskPath, ''out.png''] \<and>
   decodes (reached (drawFaces_diag scenario_world scenario_fd scenario_state
     [scenario_face, faint_face, offcentre_face])) = [maskPath, maskPath] \<and>
   mask_opens (reached (drawFaces scenario_world (scenario_fd\<lparr>destination := maskPath\<rparr>)
     scenario_state [scenario_face])) = 2 \<and>
   mask_decodes (reached (drawFaces scenario_world (scenario_fd\<lparr>destination := maskPath\<rparr>)
     scenario_state [scenario_face])) = 1"
proof -
  have q: "Q faint_face \<le> 5" "5 < Q scenario_face" "5 < Q offcentre_face"
    "opened scenario_state = []" "decodes scenario_state = []"
    "destination scenario_fd = ''out.png''"
    by (simp_all add: faint_face_def scenario_face_def offcentre_face_def scenario_state_def
        scenario_fd_def)
  note three = mask_opened_per_qualifying_face [OF scenario_lp84 scenario_mask scenario_decode,
      of "[scenario_face, faint_face, offcentre_face]" scenario_fd]
  note one = mask_opened_per_qualifying_face [OF scenario_lp84 scenario_mask scenario_decode,
      of "[scenario_face]" "scenario_fd\<lparr>destination := maskPath\<rparr>"]
  from three one show ?thesis
    using q by (simp add: Let_def mask_opens_def mask_decodes_def)
qed

lemma mask_opens_writeOutput:
  "destination fdr \<noteq> maskPath \<Longrightarrow> mask_opens (reached (writeOutput w fdr st)) = mask_opens st"
  by (simp add: mask_opens_def opened_writeOutput)

lemma mask_decodes_writeOutput:
  "mask_decodes (reached (writeOutput w fdr st)) = mask_decodes st"
  by (simp add: mask_decodes_def decodes_writeOutput)

text \<open>
  Claim C8, as it is stated, fails: a run over two detections with scores above 5
  completes and has opened the mask asset twice and decoded it twice.
\<close>

theorem mask_opened_twice:
  "\<not> isl (drawFaces scenario_world scenario_fd scenario_state [scenario_face, offcentre_face]) \<and>
   mask_opens (reached (drawFaces scenario_world scenario_fd scenario_state
     [scenario_face, offcentre_face])) = 2 \<and>
   mask_decodes (reached (drawFaces scenario_world scenario_fd scenario_state
     [scenario_face, offcentre_face])) = 2"
proof -
  have q: "5 < Q scenario_face" "5 < Q offcentre_face" "opened scenario_state = []"
    "decodes scenario_state = []"
    by (simp_all add: scenario_face_def offcentre_face_def scenario_state_def)
  have m0: "files (scenario_state\<lparr>imgScale := 0\<rparr>) maskPath = Some [137, 80, 78, 71]"
    using scenario_mask by simp
  from forFaces_overlay [OF scenario_lp84 m0 scenario_decode,
      of scenario_fd "[scenario_face, offcentre_face]"]
  obtain st1 where
    st1: "forFaces (overlay scenario_world scenario_fd) (scenario_state\<lparr>imgScale := 0\<rparr>)
        [scenario_face, offcentre_face] = Inr st1"
      "opened st1 = [maskPath, maskPath]"
      "files st1 = files scenario_state"
      "decodes st1 = [maskPath, maskPath]"
    using q by (auto simp add: qualifying_5)
  have d: "destination scenario_fd \<noteq> maskPath"
    by (simp add: scenario_fd_def maskPath_def)
  have w: "\<not> isl (writeOutput scenario_world scenario_fd st1)"
    by (simp add: writeOutput_def OpenFile_def Let_def st1(3) scenario_state_def scenario_fd_def
        scenario_world_def Ext_def maskPath_def)
  have "mask_opens st1 = 2" "mask_decodes st1 = 2"
    by (simp_all add: mask_opens_def mask_decodes_def st1(2,4))
  then show ?thesis
    using w unfolding drawFaces_def st1(1)
    by (simp add: mask_opens_writeOutput [OF d] mask_decodes_writeOutput)
qed

section \<open>Degenerate points\<close>

lemma overlay_errors:
  assumes "overlay w fdr st face = Inl (e, st')"
  shows "(e = IndexOutOfRange \<and> lp84 w = None) \<or>
         (e = PathError maskPath \<and> files st maskPath = None) \<or>
         (e = DecodeError \<and> (\<exists>bytes. files st maskPath = Some bytes \<and> png_Decode w bytes = None))"
  using assms
  by (auto simp add: overlay_def readMask_def OpenFile_def ReadAll_def Let_def
      split: if_splits option.splits sum.splits prod.splits)

lemma overlay_diag_errors:
  assumes "overlay_diag w fdr st face = Inl (e, st')"
  shows "(e = IndexOutOfRange \<and> lp84 w = None) \<or>
         (e = PathError maskPath \<and> files st maskPath = None) \<or>
         (e = DecodeError \<and> (\<exists>bytes. files st maskPath = Some bytes \<and> png_Decode w bytes = None))"
  using assms
  by (auto simp add: overlay_diag_def readMask_def OpenFile_def ReadAll_def Let_def
      split: if_splits option.splits sum.splits prod.splits)

lemma marker_degenerate:
  "marker p =
     (if degenerate p then []
      else drawDetections (real_of_int (Puploc.Col p)) (real_of_int (Puploc.Row p))
             (Puploc.Scale p * 0.5) (RGBA 0 0 255 255) False)"
  by (auto simp add: marker_def degenerate_def)

text \<open>
  Claim C7. Whatever points the pupil locator and the landmark locator answer,
  degenerate ones (row or column not positive) included, a face above the threshold
  is not skipped and raises no error: with the cascade loaded and the mask asset
  readable (with positive bounds), the loop body of either source text completes
  and draws the mask.
  The pupil points go into the landmark locator as the pupil locator returned
  them, and the landmark points \<open>p1\<close> and \<open>p2\<close> go into the angle and the vertical
  origin as the landmark locator returned them: the mask is rotated by
  \<open>1 - (atan2(p2.col - p1.col, p2.row - p1.row) * 180 / \<pi> / 90)\<close> and drawn at
  \<open>y = p1.row + (p1.row - p2.row)/2 - height/2\<close>. The scale, the size and the
  horizontal origin come from the face and the mask alone. The second text leaves
  out the marker of a degenerate landmark point, and nothing else. (The errors of
  the loop body, \<open>overlay_errors\<close> and \<open>overlay_diag_errors\<close>, are those of the
  cascade and of the mask asset.)
\<close>

theorem degenerate_points_flow_through:
  assumes "Q face > qThresh" and "lp84 w = Some c"
    and "files st maskPath = Some bytes" and "png_Decode w bytes = Some m"
    and "0 < Dx m" and "0 < Dy m"
  shows
    "let leftEye = RunDetector w (leftEyeWindow face) (angle fdr) False;
         rightEye = RunDetector w (rightEyeWindow face) (angle fdr) False;
         p1 = c leftEye rightEye perturb False;
         p2 = c leftEye rightEye perturb True;
         a = 1 - (Atan2 w (real_of_int (Puploc.Col p2 - Puploc.Col p1))
                          (real_of_int (Puploc.Row p2 - Puploc.Row p1)) * 180 / pi / 90);
         s = spec_scale (imgScale st) face m;
         wd = spec_size (Dx m) s;
         ht = spec_size (Dy m) s;
         y0 = Puploc.Row p1 + idiv (Puploc.Row p1 - Puploc.Row p2) 2 - to_int (fdiv ht 2);
         aligned = Rotate (Resize (Image m) (to_int wd) (to_int ht) Lanczos) a Transparent
     in (\<exists>st'. overlay w fdr st face = Inr st' \<and>
           dc st' = dc st @ faceBox face @
             [DrawImage aligned (Detection.Col face - to_int (fdiv wd 2)) y0]) \<and>
        (\<exists>st'. overlay_diag w fdr st face = Inr st' \<and>
           dc st' = dc st @ faceBox face @
             (if degenerate p1 then []
              else drawDetections (real_of_int (Puploc.Col p1)) (real_of_int (Puploc.Row p1))
                     (Puploc.Scale p1 * 0.5) (RGBA 0 0 255 255) False) @
             (if degenerate p2 then []
              else drawDetections (real_of_int (Puploc.Col p2)) (real_of_int (Puploc.Row p2))
                     (Puploc.Scale p2 * 0.5) (RGBA 0 0 255 255) False) @
             [DrawImage aligned
                (Detection.Row face - to_int (fmul (fdiv wd 2) (f64 0.8))) y0])"
proof -
  let ?p1 = "landmark w fdr c face False"
  let ?p2 = "landmark w fdr c face True"
  have ok: "Q face > qThresh" "lp84 w = Some c" "files st maskPath = Some bytes"
    "png_Decode w bytes = Some m"
    using assms by simp_all
  have p: "?p1 = c (RunDetector w (leftEyeWindow face) (angle fdr) False)
                   (RunDetector w (rightEyeWindow face) (angle fdr) False) perturb False"
    "?p2 = c (RunDetector w (leftEyeWindow face) (angle fdr) False)
             (RunDetector w (rightEyeWindow face) (angle fdr) False) perturb True"
    by (simp_all add: landmark_def leftEyeOf_def rightEyeOf_def)
  have a: "composite m (align w (imgScale st) face ?p1 ?p2 m) =
      [DrawImage (Rotate (Resize (Image m)
           (to_int (spec_size (Dx m) (spec_scale (imgScale st) face m)))
           (to_int (spec_size (Dy m) (spec_scale (imgScale st) face m))) Lanczos)
         (spec_angle w ?p1 ?p2) Transparent)
        (Detection.Col face - to_int (fdiv (spec_size (Dx m) (spec_scale (imgScale st) face m)) 2))
        (Puploc.Row ?p1 + idiv (Puploc.Row ?p1 - Puploc.Row ?p2) 2
           - to_int (fdiv (spec_size (Dy m) (spec_scale (imgScale st) face m)) 2))]"
    by (simp add: composite_def Let_def align_angle align_size align_origin)
  have b: "composite m (align_diag w (imgScale st) face (toPoint ?p1) (toPoint ?p2) m) =
      [DrawImage (Rotate (Resize (Image m)
           (to_int (spec_size (Dx m) (spec_scale (imgScale st) face m)))
           (to_int (spec_size (Dy m) (spec_scale (imgScale st) face m))) Lanczos)
         (spec_angle w ?p1 ?p2) Transparent)
        (Detection.Row face
           - to_int (fmul (fdiv (spec_size (Dx m) (spec_scale (imgScale st) face m)) 2) (f64 0.8)))
        (Puploc.Row ?p1 + idiv (Puploc.Row ?p1 - Puploc.Row ?p2) 2
           - to_int (fdiv (spec_size (Dy m) (spec_scale (imgScale st) face m)) 2))]"
    by (simp add: composite_def Let_def align_diag_angle align_diag_size align_diag_origin)
  have one: "\<exists>st'. overlay w fdr st face = Inr st' \<and>
      dc st' = dc st @ faceBox face @ composite m (align w (imgScale st) face ?p1 ?p2 m)"
    by (simp add: overlay_ok [OF ok])
  have two: "\<exists>st'. overlay_diag w fdr st face = Inr st' \<and>
      dc st' = dc st @ faceBox face @ marker ?p1 @ marker ?p2 @
        composite m (align_diag w (imgScale st) face (toPoint ?p1) (toPoint ?p2) m)"
    by (simp add: overlay_diag_ok [OF ok])
  note one' = one [unfolded a]
  note two' = two [unfolded b]
  show ?thesis
    using one' two'
    unfolding marker_degenerate spec_angle_def p Let_def
    by blast
qed

lemma lost_lp84: "lp84 lost_world = Some echo_flp"
  by (simp add: lp84_def lost_world_def scenario_world_def)

lemma lost_decode:
  "png_Decode lost_world [137, 80, 78, 71] = Some \<lparr> Dx = 200, Dy = 200, Pix = [137, 80, 78, 71] \<rparr>"
  by (simp add: lost_world_def scenario_world_def)

lemma lost_points:
  "RunDetector lost_world (leftEyeWindow scenario_face) a False =
     \<lparr> Row = - 14, Col = 86, Scale = 20, Perturbs = 63 \<rparr>"
  "RunDetector lost_world (rightEyeWindow scenario_face) a False =
     \<lparr> Row = 14, Col = 114, Scale = 20, Perturbs = 63 \<rparr>"
  by (simp_all add: lost_world_def scenario_world_def lost_pupil_def leftEyeWindow_def
      rightEyeWindow_def scenario_face_def to_int_def perturb_def)

theorem degenerate_points_flow_through_witness:
  "degenerate (leftEyeOf lost_world scenario_fd scenario_face) \<and>
   degenerate (landmark lost_world scenario_fd echo_flp scenario_face False) \<and>
   dc (reached (overlay lost_world scenario_fd scenario_state scenario_face)) =
     [DrawRectangle 60 60 80 80, SetLineWidth 2,
      SetStrokeStyle (NewSolidPattern (RGBA 255 0 0 255)), Stroke,
      DrawImage (Rotate (Resize (Image \<lparr> Dx = 200, Dy = 200, Pix = [137, 80, 78, 71] \<rparr>) 60 60 Lanczos)
        (1 - (atan2 28 28 * 180 / pi / 90)) Transparent) 70 (- 58)] \<and>
   dc (reached (overlay_diag lost_world scenario_fd scenario_state scenario_face)) =
     [DrawRectangle 60 60 80 80, SetLineWidth 2,
      SetStrokeStyle (NewSolidPattern (RGBA 255 0 0 255)), Stroke,
      DrawArc 114 14 1.5 0 (2 * pi), SetFillStyle (NewSolidPattern (RGBA 0 0 255 255)), Fill,
      DrawImage (Rotate (Resize (Image \<lparr> Dx = 200, Dy = 200, Pix = [137, 80, 78, 71] \<rparr>) 60 60 Lanczos)
        (1 - (atan2 28 28 * 180 / pi / 90)) Transparent) 76 (- 58)]"
proof -
  let ?m = "\<lparr> Dx = 200, Dy = 200, Pix = [137, 80, 78, 71] \<rparr>"
  have d: "degenerate (leftEyeOf lost_world scenario_fd scenario_face)"
    "degenerate (landmark lost_world scenario_fd echo_flp scenario_face False)"
    by (simp_all add: degenerate_def landmark_def leftEyeOf_def rightEyeOf_def lost_points
        echo_flp_def)
  have s: "dc scenario_state = []" "Atan2 lost_world = atan2"
    by (simp_all add: scenario_state_def lost_world_def scenario_world_def)
  have sc: "spec_scale (imgScale scenario_state) scenario_face ?m =
      3602879701896397 / 9007199254740992"
    by (simp add: spec_scale_def scenario_face_def scenario_floats)
  have sz: "spec_size (Dx ?m) (3602879701896397 / 9007199254740992) = 60"
    "spec_size (Dy ?m) (3602879701896397 / 9007199254740992) = 60"
    by (simp_all add: spec_size_def scenario_floats)
  have bounds: "0 < Dx ?m" "0 < Dy ?m"
    by simp_all
  note flow = degenerate_points_flow_through [OF scenario_Q lost_lp84 scenario_mask lost_decode
      bounds, of scenario_fd]
  note at_points = flow [unfolded Let_def lost_points sc sz s]
  from at_points show ?thesis
    using d
    by (auto simp add: reached_def scenario_floats echo_flp_def degenerate_def
        faceBox_def drawDetections_def scenario_face_def to_int_def idiv_def)
qed

section \<open>The outline of the face box\<close>

lemma overlay_box_first:
  assumes "Q face > qThresh"
  shows "\<exists>rest. dc (reached (overlay w fdr st face)) = dc st @ faceBox face @ rest"
  using assms
  by (auto simp add: overlay_def readMask_def OpenFile_def ReadAll_def Let_def reached_def
      split: option.splits sum.splits prod.splits)

lemma overlay_diag_box_first:
  assumes "Q face > qThresh"
  shows "\<exists>rest. dc (reached (overlay_diag w fdr st face)) = dc st @ faceBox face @ rest"
  using assms
  by (auto simp add: overlay_diag_def readMask_def OpenFile_def ReadAll_def Let_def reached_def
      split: option.splits sum.splits prod.splits)

text \<open>
  Claim C9. For a detection with a score greater than 5 (cascade loaded, mask asset
  readable) the loop body of either source text first appends to the context the
  rectangle with corner \<open>(col - scale/2, row - scale/2)\<close> and side \<open>scale\<close>, the line
  width 2, the solid stroke colour RGBA (255, 0, 0, 255) and the stroke, and only
  then the one image it draws. When the detection is one of those of a run, these
  four calls are part of the canvas that \<open>drawFaces\<close> hands to the encoder, and the
  destination file holds the encoding of that canvas (over the bytes it had
  before), in the mask generator as in the second text.
\<close>

theorem face_box_outlined:
  assumes "5 < Q face" and "face \<in> set faces"
    and "lp84 w = Some c" and "files st maskPath = Some bytes" and "png_Decode w bytes = Some m"
  shows
    "let box = [DrawRectangle
                  (real_of_int (Detection.Col face - idiv (Detection.Scale face) 2))
                  (real_of_int (Detection.Row face - idiv (Detection.Scale face) 2))
                  (real_of_int (Detection.Scale face)) (real_of_int (Detection.Scale face)),
                SetLineWidth 2,
                SetStrokeStyle (NewSolidPattern (RGBA 255 0 0 255)),
                Stroke];
         old = contents (files st) (destination fdr)
     in (\<exists>st' rest. overlay w fdr st face = Inr st' \<and>
           dc st' = dc st @ box @ rest \<and> length (composites rest) = 1) \<and>
        (\<exists>st' rest. overlay_diag w fdr st face = Inr st' \<and>
           dc st' = dc st @ box @ rest \<and> length (composites rest) = 1) \<and>
        (\<exists>pre post.
           dc (reached (drawFaces w fdr st faces)) = pre @ box @ post \<and>
           files (reached (drawFaces w fdr st faces)) (destination fdr) =
             (case encoded w (destination fdr) (pre @ box @ post) of
                Some enc \<Rightarrow> Some (enc @ drop (length enc) old)
              | None \<Rightarrow> Some old)) \<and>
        (\<exists>pre post.
           dc (reached (drawFaces_diag w fdr st faces)) = pre @ box @ post \<and>
           files (reached (drawFaces_diag w fdr st faces)) (destination fdr) =
             (case encoded w (destination fdr) (pre @ box @ post) of
                Some enc \<Rightarrow> Some (enc @ drop (length enc) old)
              | None \<Rightarrow> Some old))"
proof -
  let ?box = "[DrawRectangle
                 (real_of_int (Detection.Col face - idiv (Detection.Scale face) 2))
                 (real_of_int (Detection.Row face - idiv (Detection.Scale face) 2))
                 (real_of_int (Detection.Scale face)) (real_of_int (Detection.Scale face)),
               SetLineWidth 2,
               SetStrokeStyle (NewSolidPattern (RGBA 255 0 0 255)),
               Stroke]"
  let ?old = "contents (files st) (destination fdr)"
  have box: "faceBox face = ?box"
    by (simp add: faceBox_def)
  have q: "Q face > qThresh"
    using assms(1) by (simp add: qThresh_def)
  have mem: "face \<in> set (qualifying faces)"
    using assms(1,2) by (simp add: qualifying_5)
  have m0: "files (st\<lparr>imgScale := 0\<rparr>) maskPath = Some bytes"
    using assms(4) by simp
  have one: "\<And>body. pass_ok body st face \<Longrightarrow>
      \<exists>st' rest. body st face = Inr st' \<and> dc st' = dc st @ ?box @ rest \<and>
        length (composites rest) = 1"
    unfolding pass_ok_def using q box by auto
  have run: "\<And>(st1 :: state) ops. files st1 = files st \<Longrightarrow> dc st1 = dc st @ ops \<Longrightarrow>
      \<forall>f \<in> set (qualifying faces). \<exists>pre post. ops = pre @ faceBox f @ post \<Longrightarrow>
      \<exists>pre post.
         dc (reached (writeOutput w fdr st1)) = pre @ ?box @ post \<and>
         files (reached (writeOutput w fdr st1)) (destination fdr) =
           (case encoded w (destination fdr) (pre @ ?box @ post) of
              Some enc \<Rightarrow> Some (enc @ drop (length enc) ?old)
            | None \<Rightarrow> Some ?old)"
  proof -
    fix st1 :: state and ops
    assume f: "files st1 = files st" and d: "dc st1 = dc st @ ops"
      and all: "\<forall>f \<in> set (qualifying faces). \<exists>pre post. ops = pre @ faceBox f @ post"
    from all mem obtain pre post where "ops = pre @ faceBox face @ post"
      by blast
    then have canvas: "dc st1 = (dc st @ pre) @ ?box @ post"
      using d box by simp
    have "dc (reached (writeOutput w fdr st1)) = (dc st @ pre) @ ?box @ post \<and>
         files (reached (writeOutput w fdr st1)) (destination fdr) =
           (case encoded w (destination fdr) ((dc st @ pre) @ ?box @ post) of
              Some enc \<Rightarrow> Some (enc @ drop (length enc) ?old)
            | None \<Rightarrow> Some ?old)"
      by (simp only: dc_writeOutput writeOutput_contents canvas [symmetric] f)
    then show "\<exists>pre post.
         dc (reached (writeOutput w fdr st1)) = pre @ ?box @ post \<and>
         files (reached (writeOutput w fdr st1)) (destination fdr) =
           (case encoded w (destination fdr) (pre @ ?box @ post) of
              Some enc \<Rightarrow> Some (enc @ drop (length enc) ?old)
            | None \<Rightarrow> Some ?old)"
      by blast
  qed
  from forFaces_overlay [OF assms(3) m0 assms(5), of fdr faces] obtain st1 ops1 where
    st1: "forFaces (overlay w fdr) (st\<lparr>imgScale := 0\<rparr>) faces = Inr st1"
      "files st1 = files st" "dc st1 = dc st @ ops1"
      "\<forall>f \<in> set (qualifying faces). \<exists>pre post. ops1 = pre @ faceBox f @ post"
    by auto
  from forFaces_overlay_diag [OF assms(3) m0 assms(5), of fdr faces] obtain st2 ops2 where
    st2: "forFaces (overlay_diag w fdr) (st\<lparr>imgScale := 0\<rparr>) faces = Inr st2"
      "files st2 = files st" "dc st2 = dc st @ ops2"
      "\<forall>f \<in> set (qualifying faces). \<exists>pre post. ops2 = pre @ faceBox f @ post"
    by auto
  have r1: "drawFaces w fdr st faces = writeOutput w fdr st1"
    by (simp add: drawFaces_def st1(1))
  have r2: "drawFaces_diag w fdr st faces = writeOutput w fdr st2"
    by (simp add: drawFaces_diag_def st2(1))
  show ?thesis
    unfolding Let_def r1 r2
    using one [OF overlay_pass [OF assms(3-5)]] one [OF overlay_diag_pass [OF assms(3-5)]]
      run [OF st1(2-4)] run [OF st2(2-4)]
    by (intro conjI)
qed

theorem face_box_outlined_witness:
  "take 4 (dc (reached (overlay scenario_world scenario_fd scenario_state scenario_face))) =
     [DrawRectangle 60 60 80 80, SetLineWidth 2,
      SetStrokeStyle (NewSolidPattern (RGBA 255 0 0 255)), Stroke] \<and>
   take 4 (dc (reached (overlay_diag scenario_world scenario_fd scenario_state scenario_face))) =
     [DrawRectangle 60 60 80 80, SetLineWidth 2,
      SetStrokeStyle (NewSolidPattern (RGBA 255 0 0 255)), Stroke] \<and>
   dc (reached (drawFaces scenario_world scenario_fd scenario_state [faint_face, scenario_face])) =
     [DrawRectangle 60 60 80 80, SetLineWidth 2,
      SetStrokeStyle (NewSolidPattern (RGBA 255 0 0 255)), Stroke,
      DrawImage (Rotate (Resize (Image \<lparr> Dx = 200, Dy = 200, Pix = [137, 80, 78, 71] \<rparr>) 60 60 Lanczos)
        (1 - (atan2 20 (- 2) * 180 / pi / 90)) Transparent) 70 101] \<and>
   files (reached (drawFaces scenario_world scenario_fd scenario_state [faint_face, scenario_face]))
     ''out.png'' = Some (replicate 5 137 @ replicate 35 7)"
proof -
  let ?m = "\<lparr> Dx = 200, Dy = 200, Pix = [137, 80, 78, 71] \<rparr>"
  let ?t = "align scenario_world 0 scenario_face
              (landmark scenario_world scenario_fd scenario_flp scenario_face False)
              (landmark scenario_world scenario_fd scenario_flp scenario_face True) ?m"
  let ?run = "drawFaces scenario_world scenario_fd scenario_state [faint_face, scenario_face]"
  let ?box = "[DrawRectangle
                 (real_of_int (Detection.Col scenario_face - idiv (Detection.Scale scenario_face) 2))
                 (real_of_int (Detection.Row scenario_face - idiv (Detection.Scale scenario_face) 2))
                 (real_of_int (Detection.Scale scenario_face))
                 (real_of_int (Detection.Scale scenario_face)),
               SetLineWidth 2,
               SetStrokeStyle (NewSolidPattern (RGBA 255 0 0 255)),
               Stroke]"
  have q: "5 < Q scenario_face" "scenario_face \<in> set [scenario_face]"
    "scenario_face \<in> set [faint_face, scenario_face]"
    by (simp_all add: scenario_face_def)
  have s: "dc scenario_state = []"
    by (simp add: scenario_state_def)
  have fq: "\<not> Q faint_face > qThresh"
    by (simp add: faint_face_def qThresh_def)
  have m0: "files (scenario_state\<lparr>imgScale := 0\<rparr>) maskPath = Some [137, 80, 78, 71]"
    using scenario_mask by simp
  have loop: "forFaces (overlay scenario_world scenario_fd) (scenario_state\<lparr>imgScale := 0\<rparr>)
      [faint_face, scenario_face] =
      Inr (scenario_state\<lparr> dc := dc scenario_state @ faceBox scenario_face @ composite ?m ?t,
             imgScale := t_imgScale ?t, opened := opened scenario_state @ [maskPath],
             decodes := decodes scenario_state @ [maskPath] \<rparr>)"
    by (simp add: overlay_skip [OF fq] overlay_ok [OF scenario_Q scenario_lp84 m0 scenario_decode])
  have run: "dc (reached ?run) = dc scenario_state @ faceBox scenario_face @ composite ?m ?t"
    unfolding drawFaces_def loop by (simp add: dc_writeOutput)
  have canvas: "dc scenario_state @ faceBox scenario_face @ composite ?m ?t =
     [DrawRectangle 60 60 80 80, SetLineWidth 2,
      SetStrokeStyle (NewSolidPattern (RGBA 255 0 0 255)), Stroke,
      DrawImage (Rotate (Resize (Image ?m) 60 60 Lanczos)
        (1 - (atan2 20 (- 2) * 180 / pi / 90)) Transparent) 70 101]"
    by (simp add: s faceBox_def composite_def Let_def align_def landmark_def scenario_flp_def
        scenario_face_def scenario_world_def to_int_def idiv_def scenario_floats)
  have old: "contents (files scenario_state) ''out.png'' = replicate 40 7"
    by (simp add: contents_def scenario_state_def maskPath_def)
  have d: "destination scenario_fd = ''out.png''"
    by (simp add: scenario_fd_def)
  have enc: "\<And>ops. length ops = 5 \<Longrightarrow>
      encoded scenario_world ''out.png'' ops = Some (replicate 5 137)"
    by (simp add: encoded_def Ext_def scenario_world_def)
  have len: "length (dc (reached ?run)) = 5"
    unfolding run canvas by simp
  note single = face_box_outlined [OF q(1,2) scenario_lp84 scenario_mask scenario_decode,
      of scenario_fd]
  note whole = face_box_outlined [OF q(1,3) scenario_lp84 scenario_mask scenario_decode,
      of scenario_fd]
  from whole obtain pre post where
    out: "dc (reached ?run) = pre @ ?box @ post"
      "files (reached ?run) (destination scenario_fd) =
         (case encoded scenario_world (destination scenario_fd) (pre @ ?box @ post) of
            Some enc \<Rightarrow> Some (enc @ drop (length enc)
                          (contents (files scenario_state) (destination scenario_fd)))
          | None \<Rightarrow> Some (contents (files scenario_state) (destination scenario_fd)))"
    unfolding Let_def by blast
  have written: "files (reached ?run) ''out.png'' = Some (replicate 5 137 @ replicate 35 7)"
    using out(2) unfolding out(1) [symmetric] d old
    by (simp add: enc [OF len])
  from single have boxes:
    "take 4 (dc (reached (overlay scenario_world scenario_fd scenario_state scenario_face))) =
       [DrawRectangle 60 60 80 80, SetLineWidth 2,
        SetStrokeStyle (NewSolidPattern (RGBA 255 0 0 255)), Stroke] \<and>
     take 4 (dc (reached (overlay_diag scenario_world scenario_fd scenario_state scenario_face))) =
       [DrawRectangle 60 60 80 80, SetLineWidth 2,
        SetStrokeStyle (NewSolidPattern (RGBA 255 0 0 255)), Stroke]"
    unfolding Let_def
    by (auto simp add: reached_def s scenario_face_def idiv_def)
  show ?thesis
    using boxes written run canvas by simp
qed

section \<open>The output file\<close>

lemma writeOutput_files:
  assumes "files st (destination fdr) = Some old"
  shows "files (reached (writeOutput w fdr st)) (destination fdr) =
           (case encoded w (destination fdr) (dc st) of
              Some enc \<Rightarrow> Some (enc @ drop (length enc) old)
            | None \<Rightarrow> Some old)"
  using assms
  by (simp add: writeOutput_def OpenFile_def Write_def encoded_def Let_def reached_def
      split: option.splits)

text \<open>
  Claim C10. The destination is opened with \<open>O_CREATE\<close> and \<open>O_RDWR\<close> and without
  \<open>O_TRUNC\<close>. When it exists with the bytes \<open>old\<close> (cascade loaded, mask asset
  readable, so that the loop completes), a run of either source text leaves in it
  the new encoding followed by the bytes of \<open>old\<close> beyond the length of the encoding
  (and \<open>old\<close> itself if nothing was encoded); that differs from the encoding exactly
  when \<open>old\<close> is the longer one.
\<close>

theorem output_not_truncated:
  assumes "lp84 w = Some c" and "files st maskPath = Some bytes" and "png_Decode w bytes = Some m"
    and "files st (destination fdr) = Some old"
  shows "(\<exists>st1. forFaces (overlay w fdr) (st\<lparr>imgScale := 0\<rparr>) faces = Inr st1 \<and>
            files (reached (drawFaces w fdr st faces)) (destination fdr) =
              (case encoded w (destination fdr) (dc st1) of
                 Some enc \<Rightarrow> Some (enc @ drop (length enc) old)
               | None \<Rightarrow> Some old)) \<and>
         (\<exists>st1. forFaces (overlay_diag w fdr) (st\<lparr>imgScale := 0\<rparr>) faces = Inr st1 \<and>
            files (reached (drawFaces_diag w fdr st faces)) (destination fdr) =
              (case encoded w (destination fdr) (dc st1) of
                 Some enc \<Rightarrow> Some (enc @ drop (length enc) old)
               | None \<Rightarrow> Some old)) \<and>
         (O_TRUNC \<notin> {O_CREATE, O_RDWR}) \<and>
         ((enc @ drop (length enc) old \<noteq> enc) = (length enc < length old))"
proof (intro conjI)
  have m0: "files (st\<lparr>imgScale := 0\<rparr>) maskPath = Some bytes"
    using assms(2) by simp
  from forFaces_overlay [OF assms(1) m0 assms(3), of fdr faces] obtain st1 where
    st1: "forFaces (overlay w fdr) (st\<lparr>imgScale := 0\<rparr>) faces = Inr st1" "files st1 = files st"
    by auto
  have "files st1 (destination fdr) = Some old"
    using st1(2) assms(4) by simp
  from writeOutput_files [OF this, of w]
  show "\<exists>st1. forFaces (overlay w fdr) (st\<lparr>imgScale := 0\<rparr>) faces = Inr st1 \<and>
            files (reached (drawFaces w fdr st faces)) (destination fdr) =
              (case encoded w (destination fdr) (dc st1) of
                 Some enc \<Rightarrow> Some (enc @ drop (length enc) old)
               | None \<Rightarrow> Some old)"
    unfolding drawFaces_def st1(1) by (intro exI [of _ st1]) simp
  from forFaces_overlay_diag [OF assms(1) m0 assms(3), of fdr faces] obtain st2 where
    st2: "forFaces (overlay_diag w fdr) (st\<lparr>imgScale := 0\<rparr>) faces = Inr st2" "files st2 = files st"
    by auto
  have "files st2 (destination fdr) = Some old"
    using st2(2) assms(4) by simp
  from writeOutput_files [OF this, of w]
  show "\<exists>st1. forFaces (overlay_diag w fdr) (st\<lparr>imgScale := 0\<rparr>) faces = Inr st1 \<and>
            files (reached (drawFaces_diag w fdr st faces)) (destination fdr) =
              (case encoded w (destination fdr) (dc st1) of
                 Some enc \<Rightarrow> Some (enc @ drop (length enc) old)
               | None \<Rightarrow> Some old)"
    unfolding drawFaces_diag_def st2(1) by (intro exI [of _ st2]) simp
  show "O_TRUNC \<notin> {O_CREATE, O_RDWR}"
    by simp
  show "(enc @ drop (length enc) old \<noteq> enc) = (length enc < length old)"
    by auto
qed

lemma scenario_out: "files scenario_state (destination scenario_fd) = Some (replicate 40 7)"
  by (simp add: scenario_state_def scenario_fd_def maskPath_def)

theorem output_not_truncated_witness:
  "files (reached (drawFaces scenario_world scenario_fd scenario_state [scenario_face])) ''out.png'' =
     Some (replicate 5 137 @ replicate 35 7) \<and>
   png_Encode scenario_world
     (dc (reached (drawFaces scenario_world scenario_fd scenario_state [scenario_face]))) =
     Some (replicate 5 137)"
proof -
  let ?m = "\<lparr> Dx = 200, Dy = 200, Pix = [137, 80, 78, 71] \<rparr>"
  let ?t = "align scenario_world 0 scenario_face
              (landmark scenario_world scenario_fd scenario_flp scenario_face False)
              (landmark scenario_world scenario_fd scenario_flp scenario_face True) ?m"
  have m0: "files (scenario_state\<lparr>imgScale := 0\<rparr>) maskPath = Some [137, 80, 78, 71]"
    using scenario_mask by simp
  have loop: "forFaces (overlay scenario_world scenario_fd) (scenario_state\<lparr>imgScale := 0\<rparr>)
      [scenario_face] =
      Inr (scenario_state\<lparr> dc := dc scenario_state @ faceBox scenario_face @ composite ?m ?t,
             imgScale := t_imgScale ?t, opened := opened scenario_state @ [maskPath],
             decodes := decodes scenario_state @ [maskPath] \<rparr>)"
    by (simp add: overlay_ok [OF scenario_Q scenario_lp84 m0 scenario_decode])
  have len: "length (dc scenario_state @ faceBox scenario_face @ composite ?m ?t) = 5"
    by (simp add: scenario_state_def faceBox_def composite_def Let_def)
  have d: "destination scenario_fd = ''out.png''"
    by (simp add: scenario_fd_def)
  have enc: "\<And>ops. length ops = 5 \<Longrightarrow>
      encoded scenario_world ''out.png'' ops = Some (replicate 5 137)"
    by (simp add: encoded_def Ext_def scenario_world_def)
  have png: "\<And>ops. length ops = 5 \<Longrightarrow> png_Encode scenario_world ops = Some (replicate 5 137)"
    by (simp add: scenario_world_def)
  have run: "dc (reached (drawFaces scenario_world scenario_fd scenario_state [scenario_face])) =
      dc scenario_state @ faceBox scenario_face @ composite ?m ?t"
    unfolding drawFaces_def loop by (simp add: dc_writeOutput)
  from output_not_truncated [OF scenario_lp84 scenario_mask scenario_decode scenario_out,
      of "[scenario_face]"]
  have "files (reached (drawFaces scenario_world scenario_fd scenario_state [scenario_face]))
      ''out.png'' = Some (replicate 5 137 @ drop 5 (replicate 40 7))"
    unfolding loop d by (simp add: enc [OF len])
  then show ?thesis
    by (simp add: run png [OF len])
qed

end
